theory Spec2Isabelle
  imports Main "HOL-Library.Word"
begin

section \<open>Data model of the window messenger\<close>

text \<open>
  The development embeds \<^verbatim>\<open>WindowMessenger\<close> (window-messenger.ts) and the
  alternate-origin prober of \<^verbatim>\<open>amp-web-push-helper-frame.ts\<close>.
  Isabelle refuses names that end in an underscore, so the trailing underscore of the
  source's private members is dropped: \<^verbatim>\<open>messages_\<close> is \<open>messages\<close>,
  \<^verbatim>\<open>sendReply_\<close> is \<open>sendReply\<close>, and so on.

  Three things are left outside the model. Logging: \<^verbatim>\<open>log\<close> only writes to the
  console. What a page or a peer can do to \<^verbatim>\<open>Object.prototype\<close>, from which
  \<^verbatim>\<open>messages_\<close> and \<^verbatim>\<open>listeners_\<close>, two plain objects, inherit: the two
  tables are maps of the keys the messenger stored, looked up with the members that
  \<^verbatim>\<open>Object.prototype\<close> has from the start (\<open>inherited\<close> below). And the DOM work
  of the prober (creating the frame), which shows in the model only as the answer a probe
  target gives.
\<close>

text \<open>
  Payloads are JavaScript values as a message port clones them: primitives, arrays and
  plain objects. Numbers are kept to integers; functions cannot cross a port, and the
  other objects a port can clone (dates, maps, typed arrays and the like) are left out.
\<close>

datatype jsval =
    JUndefined
  | JNull
  | JBool bool
  | JNum int
  | JStr string
  | JArr "jsval list"
  | JObj "(string \<times> jsval) list"

text \<open>JavaScript truthiness, as \<^verbatim>\<open>!message\<close> tests it.\<close>

fun truthy :: "jsval \<Rightarrow> bool" where
  "truthy JUndefined = False"
| "truthy JNull = False"
| "truthy (JBool b) = b"
| "truthy (JNum n) = (n \<noteq> 0)"
| "truthy (JStr s) = (s \<noteq> [])"
| "truthy (JArr xs) = True"
| "truthy (JObj kvs) = True"

text \<open>
  Property read \<^verbatim>\<open>v['k']\<close> on a value that is neither null nor undefined: an own
  property of an object, \<^verbatim>\<open>undefined\<close> otherwise (none of the keys the source
  reads is a property of a primitive, of an array or of \<^verbatim>\<open>Object.prototype\<close>).
\<close>

fun getProp :: "jsval \<Rightarrow> string \<Rightarrow> jsval" where
  "getProp (JObj kvs) k = (case map_of kvs k of Some v \<Rightarrow> v | None \<Rightarrow> JUndefined)"
| "getProp v k = JUndefined"

text \<open>
  Exceptions: the engine's TypeError, the SyntaxError of a selector that does not parse,
  and \<open>UserError\<close> for an \<^verbatim>\<open>Error\<close> that the program or a subscriber throws
  itself.
\<close>

datatype error = TypeError | SyntaxError | UserError

text \<open>
  How a call ends: it returns, it throws, or the model's fuel ran out inside a loop that
  the source does not bound. Every outcome carries the state reached, since a throw
  does not undo the mutations made before it.
\<close>

datatype status = Returned | Threw error | OutOfFuel

text \<open>
  The application envelope \<^verbatim>\<open>{id, topic, data, isReply}\<close>; an absent
  \<^verbatim>\<open>isReply\<close> is \<open>False\<close>.
\<close>

record envelope =
  env_id :: string
  env_topic :: string
  env_data :: jsval
  isReply :: bool

text \<open>
  An entry of \<^verbatim>\<open>messages_\<close>: \<^verbatim>\<open>{message, topic, promiseResolver}\<close>. The
  resolver is named by the number of the promise it settles.
\<close>

record pending =
  pe_message :: jsval
  pe_topic :: string
  promiseResolver :: nat

text \<open>
  What a promise is resolved with: the two-element array
  \<^verbatim>\<open>[data, sendReply_.bind(this, id, topic)]\<close> of a reply, or nothing
  (\<^verbatim>\<open>resolve()\<close> of \<^verbatim>\<open>listen\<close> and \<^verbatim>\<open>connect\<close>).
\<close>

datatype settle = ReplyOutcome jsval string string | Void

datatype reason = Err string | Exn error

text \<open>
  Function objects made by \<^verbatim>\<open>bind\<close>: the first number is the identity of the
  object (every \<^verbatim>\<open>bind\<close> makes a new one), the rest are the bound arguments.
\<close>

datatype proc =
    ListenProc nat "string list" nat
  | ConnectProc nat nat "string option" nat
  | ChannelProc nat

record messageEvent =
  ev_data :: jsval
  ev_origin :: string
  ev_ports :: "nat list"

text \<open>
  The fields of the class, then the heap of subscriber arrays (\<open>listeners\<close> maps a
  topic to the address of its array, so that two references to one array alias), the
  allocation counter, and the effects on the environment: receivers registered on the
  window and on ports, messages posted, promise settlements and subscriber calls.
\<close>

record messenger =
  messages :: "string \<rightharpoonup> pending"
  listeners :: "string \<rightharpoonup> nat"
  debug :: bool
  listening :: bool
  connecting :: bool
  connected :: bool
  channel :: "(nat \<times> nat) option"
  messagePort :: "nat option"
  onListenConnectionMessageReceivedProc :: "proc option"
  onConnectConnectionMessageReceivedProc :: "proc option"
  onChannelMessageReceivedProc :: "proc option"
  arrays :: "nat \<Rightarrow> nat list"
  fresh :: nat
  windowReceivers :: "proc list"
  portReceivers :: "(nat \<times> proc) list"
  startedPorts :: "nat list"
  portPosts :: "(nat \<times> envelope) list"
  windowPosts :: "(nat \<times> jsval \<times> string \<times> nat) list"
  thenDelay :: "nat \<rightharpoonup> bool"
  resolveCalls :: "(nat \<times> settle) list"
  rejectCalls :: "(nat \<times> reason) list"
  invocations :: "(nat \<times> jsval \<times> string \<times> string) list"

text \<open>The constructor; \<open>None\<close> is a call without options.\<close>

definition WindowMessenger :: "bool option \<Rightarrow> messenger" where
  "WindowMessenger options =
     \<lparr>messages = Map.empty, listeners = Map.empty,
      debug = (case options of None \<Rightarrow> False | Some d \<Rightarrow> d),
      listening = False, connecting = False, connected = False,
      channel = None, messagePort = None,
      onListenConnectionMessageReceivedProc = None,
      onConnectConnectionMessageReceivedProc = None,
      onChannelMessageReceivedProc = None,
      arrays = (\<lambda>a. []), fresh = 0,
      windowReceivers = [], portReceivers = [], startedPorts = [],
      portPosts = [], windowPosts = [], thenDelay = Map.empty,
      resolveCalls = [], rejectCalls = [], invocations = []\<rparr>"

text \<open>
  \<^verbatim>\<open>messages_\<close> and \<^verbatim>\<open>listeners_\<close> are objects made by \<^verbatim>\<open>{}\<close>, so
  reading a key that the messenger never stored finds what \<^verbatim>\<open>Object.prototype\<close>
  holds under that name. The names below are the members of \<^verbatim>\<open>Object.prototype\<close>
  in a page that has not added to it: eleven functions and the accessor
  \<^verbatim>\<open>__proto__\<close>, which reads as \<^verbatim>\<open>Object.prototype\<close> itself. All are truthy,
  none has a \<^verbatim>\<open>push\<close>, an \<^verbatim>\<open>indexOf\<close>, a \<^verbatim>\<open>promiseResolver\<close> or an
  element at index 0, and \<open>inheritedLength\<close> is the \<^verbatim>\<open>length\<close> of the functions
  (the number of their parameters; \<^verbatim>\<open>Object.prototype\<close> has none, which compares
  like 0). The operations below say what the code does when a lookup finds one of these.
  Two effects of such names are not in the model: a reply whose id is
  \<^verbatim>\<open>__proto__\<close> writes its payload to \<^verbatim>\<open>Object.prototype.message\<close> before it
  throws, and storing a pending exchange under the id \<^verbatim>\<open>__proto__\<close> replaces the
  prototype of \<^verbatim>\<open>messages_\<close> instead of adding a key. The statements about
  subscribing and dispatching are for names that are not inherited, and say so.
\<close>

definition inherited :: "string \<Rightarrow> bool" where
  "inherited name =
     (name \<in> set [''constructor'', ''hasOwnProperty'', ''isPrototypeOf'',
                  ''propertyIsEnumerable'', ''toLocaleString'', ''toString'', ''valueOf'',
                  ''__defineGetter__'', ''__defineSetter__'', ''__lookupGetter__'',
                  ''__lookupSetter__'', ''__proto__''])"

definition inheritedLength :: "string \<Rightarrow> nat" where
  "inheritedLength name =
     (if name \<in> set [''__defineGetter__'', ''__defineSetter__''] then 2
      else if name \<in> set [''constructor'', ''hasOwnProperty'', ''isPrototypeOf'',
                           ''propertyIsEnumerable'', ''__lookupGetter__'', ''__lookupSetter__'']
      then 1
      else 0)"

text \<open>\<^verbatim>\<open>WindowMessenger.Topics\<close>.\<close>

definition CONNECT_HANDSHAKE :: string where
  "CONNECT_HANDSHAKE = ''topic-connect-handshake''"

definition NOTIFICATION_PERMISSION_STATE :: string where
  "NOTIFICATION_PERMISSION_STATE = ''topic-notification-permission-state''"

definition SERVICE_WORKER_STATE :: string where
  "SERVICE_WORKER_STATE = ''topic-service-worker-state''"

definition SERVICE_WORKER_REGISTRATION :: string where
  "SERVICE_WORKER_REGISTRATION = ''topic-service-worker-registration''"

definition SERVICE_WORKER_QUERY :: string where
  "SERVICE_WORKER_QUERY = ''topic-service-worker-query''"

definition ORIGIN_SUBSCRIPTION_STATE :: string where
  "ORIGIN_SUBSCRIPTION_STATE = ''topic-origin-subscription-state''"

section \<open>Subscriptions\<close>

text \<open>
  \<^verbatim>\<open>on(topic, callback)\<close>: push onto the topic's array when there is one, else
  store a new one-element array. When the topic has no array and is inherited, the test
  \<^verbatim>\<open>this.listeners_[topic]\<close> is truthy and the call of \<^verbatim>\<open>push\<close> on what it
  found throws a TypeError: \<open>onThrows\<close> says when the call throws, and \<open>on\<close> is the
  state it leaves, which is then the state it found.
\<close>

definition onThrows :: "string \<Rightarrow> messenger \<Rightarrow> bool" where
  "onThrows topic s = (listeners s topic = None \<and> inherited topic)"

definition on :: "string \<Rightarrow> nat \<Rightarrow> messenger \<Rightarrow> messenger" where
  "on topic callback s =
     (case listeners s topic of
        Some a \<Rightarrow> s\<lparr>arrays := (arrays s)(a := arrays s a @ [callback])\<rparr>
      | None \<Rightarrow>
          if inherited topic then s
          else s\<lparr>listeners := (listeners s)(topic \<mapsto> fresh s),
                 arrays := (arrays s)(fresh s := [callback]),
                 fresh := Suc (fresh s)\<rparr>)"

text \<open>\<^verbatim>\<open>Array.prototype.indexOf\<close> and \<^verbatim>\<open>splice(index, 1)\<close>.\<close>

fun indexOf :: "'a list \<Rightarrow> 'a \<Rightarrow> int" where
  "indexOf [] x = - 1"
| "indexOf (y # ys) x =
     (if y = x then 0 else (let r = indexOf ys x in if r = - 1 then - 1 else r + 1))"

definition splice1 :: "nat \<Rightarrow> 'a list \<Rightarrow> 'a list" where
  "splice1 i xs = take i xs @ drop (Suc i) xs"

text \<open>
  \<^verbatim>\<open>off(topic, callback)\<close>. With a callback the source calls
  \<^verbatim>\<open>this.listeners_[topic].indexOf\<close> unguarded, a TypeError when the topic has no
  array; without one it deletes the topic's entry when there is one.
\<close>

definition off :: "string \<Rightarrow> nat option \<Rightarrow> messenger \<Rightarrow> status \<times> messenger" where
  "off topic callback s =
     (case callback of
        Some cb \<Rightarrow>
          (case listeners s topic of
             None \<Rightarrow> (Threw TypeError, s)
           | Some a \<Rightarrow>
               (let callbackIndex = indexOf (arrays s a) cb in
                if callbackIndex \<noteq> - 1
                then (Returned, s\<lparr>arrays := (arrays s)(a := splice1 (nat callbackIndex) (arrays s a))\<rparr>)
                else (Returned, s)))
      | None \<Rightarrow>
          (if listeners s topic \<noteq> None
           then (Returned, s\<lparr>listeners := (listeners s)(topic := None)\<rparr>)
           else (Returned, s)))"

section \<open>Sending\<close>

text \<open>
  \<^verbatim>\<open>crypto.getRandomValues(new Uint8Array(10)).join('')\<close>: the random bytes are an
  input, the id is their decimal renderings run together.
\<close>

definition digit :: "nat \<Rightarrow> char" where
  "digit n = ''0123456789'' ! n"

definition byteString :: "8 word \<Rightarrow> string" where
  "byteString w =
     (let n = unat w in
      if n < 10 then [digit n]
      else if n < 100 then [digit (n div 10), digit (n mod 10)]
      else [digit (n div 100), digit (n div 10 mod 10), digit (n mod 10)])"

definition joinBytes :: "8 word list \<Rightarrow> string" where
  "joinBytes bs = concat (map byteString bs)"

text \<open>
  The promise both senders return: its executor stores the pending exchange under the
  id, with the new promise's resolver.
\<close>

definition register :: "string \<Rightarrow> string \<Rightarrow> jsval \<Rightarrow> messenger \<Rightarrow> messenger" where
  "register ident topic data s =
     s\<lparr>messages := (messages s)(ident \<mapsto>
          \<lparr>pe_message = data, pe_topic = topic, promiseResolver = fresh s\<rparr>),
       fresh := Suc (fresh s)\<rparr>"

text \<open>
  \<^verbatim>\<open>sendReply_(id, topic, data)\<close>; \<^verbatim>\<open>this.messagePort_.postMessage\<close> is a
  TypeError while the port is null.
\<close>

definition sendReply :: "string \<Rightarrow> string \<Rightarrow> jsval \<Rightarrow> messenger \<Rightarrow> status \<times> messenger" where
  "sendReply ident topic data s =
     (let payload = \<lparr>env_id = ident, env_topic = topic, env_data = data, isReply = True\<rparr> in
      case messagePort s of
        None \<Rightarrow> (Threw TypeError, s)
      | Some p \<Rightarrow>
          (Returned, register (env_id payload) topic data (s\<lparr>portPosts := portPosts s @ [(p, payload)]\<rparr>)))"

text \<open>\<^verbatim>\<open>send(topic, data)\<close>, with the ten random bytes.\<close>

definition send :: "string \<Rightarrow> jsval \<Rightarrow> 8 word list \<Rightarrow> messenger \<Rightarrow> status \<times> messenger" where
  "send topic data rnd s =
     (let payload = \<lparr>env_id = joinBytes rnd, env_topic = topic, env_data = data, isReply = False\<rparr> in
      case messagePort s of
        None \<Rightarrow> (Threw TypeError, s)
      | Some p \<Rightarrow>
          (Returned, register (env_id payload) topic data (s\<lparr>portPosts := portPosts s @ [(p, payload)]\<rparr>)))"

section \<open>Receiving on the channel\<close>

text \<open>
  A subscriber is a function of the host program. What it may do to the messenger while
  it runs is a list of calls: answer through the reply function it was handed, subscribe,
  unsubscribe, or throw. Its behaviour may depend on the payload.
\<close>

datatype action =
    CallReply jsval
  | CallOn string nat
  | CallOff string "nat option"
  | Throw

type_synonym behaviour = "nat \<Rightarrow> jsval \<Rightarrow> action list"

fun run_action :: "string \<Rightarrow> string \<Rightarrow> action \<Rightarrow> messenger \<Rightarrow> status \<times> messenger" where
  "run_action ident topic (CallReply data) s = sendReply ident topic data s"
| "run_action ident topic (CallOn t cb) s =
     (if onThrows t s then Threw TypeError else Returned, on t cb s)"
| "run_action ident topic (CallOff t cb) s = off t cb s"
| "run_action ident topic Throw s = (Threw UserError, s)"

fun run_actions :: "string \<Rightarrow> string \<Rightarrow> action list \<Rightarrow> messenger \<Rightarrow> status \<times> messenger" where
  "run_actions ident topic [] s = (Returned, s)"
| "run_actions ident topic (a # as) s =
     (case run_action ident topic a s of
        (Returned, s1) \<Rightarrow> run_actions ident topic as s1
      | (st, s1) \<Rightarrow> (st, s1))"

text \<open>
  The loop \<^verbatim>\<open>for (let i = 0; i < listeners.length; i++)\<close> over the array object
  the topic held when the message came in (address \<open>a\<close>). The length and the element are
  read from the heap at every step. Each call is logged with the payload and the id and
  topic bound into its reply function. A subscriber that throws ends the loop. One unit
  of fuel is spent per call, since a subscriber may keep the array growing.
\<close>

fun dispatch_loop :: "behaviour \<Rightarrow> nat \<Rightarrow> nat \<Rightarrow> envelope \<Rightarrow> nat \<Rightarrow> messenger \<Rightarrow> status \<times> messenger" where
  "dispatch_loop beh 0 a m i s =
     (if i < length (arrays s a) then (OutOfFuel, s) else (Returned, s))"
| "dispatch_loop beh (Suc fuel) a m i s =
     (if i < length (arrays s a)
      then (let listener = arrays s a ! i;
                s1 = s\<lparr>invocations := invocations s @ [(listener, env_data m, env_id m, env_topic m)]\<rparr>
            in case run_actions (env_id m) (env_topic m) (beh listener (env_data m)) s1 of
                 (Returned, s2) \<Rightarrow> dispatch_loop beh fuel a m (i + 1) s2
               | (st, s2) \<Rightarrow> (st, s2))
      else (Returned, s))"

text \<open>
  The else branch of \<^verbatim>\<open>onChannelMessageReceived_\<close>: the message goes to the
  topic's subscribers, and is dropped when the lookup of the topic finds nothing. When
  the topic has no array and is inherited, the lookup finds the inherited member and the
  loop runs over it: with a positive \<^verbatim>\<open>length\<close> its element 0 is undefined and the
  call of it throws a TypeError, otherwise the loop is over at once.
\<close>

definition deliver :: "behaviour \<Rightarrow> nat \<Rightarrow> envelope \<Rightarrow> messenger \<Rightarrow> status \<times> messenger" where
  "deliver beh fuel m s =
     (case listeners s (env_topic m) of
        None \<Rightarrow>
          if inherited (env_topic m) \<and> 0 < inheritedLength (env_topic m)
          then (Threw TypeError, s)
          else (Returned, s)
      | Some a \<Rightarrow> dispatch_loop beh fuel a m 0 s)"

text \<open>
  \<^verbatim>\<open>onChannelMessageReceived_\<close>. A reply whose id has a pending exchange deletes
  the exchange and calls its resolver with the payload and a reply function bound to the
  id and to the topic of the pending exchange. (The write to
  \<^verbatim>\<open>existingMessage.message\<close> changes an object nothing refers to any more.) A
  reply whose id has no pending exchange and is inherited takes the same branch with the
  inherited member, deletes nothing, and throws a TypeError at the call of the resolver,
  which is undefined. Anything else is delivered as a new message.
\<close>

definition onChannelMessageReceived ::
    "behaviour \<Rightarrow> nat \<Rightarrow> envelope \<Rightarrow> messenger \<Rightarrow> status \<times> messenger" where
  "onChannelMessageReceived beh fuel m s =
     (case messages s (env_id m) of
        Some existingMessage \<Rightarrow>
          (if isReply m
           then (Returned,
                 s\<lparr>messages := (messages s)(env_id m := None),
                   resolveCalls := resolveCalls s @
                     [(promiseResolver existingMessage,
                       ReplyOutcome (env_data m) (env_id m) (pe_topic existingMessage))]\<rparr>)
           else deliver beh fuel m s)
      | None \<Rightarrow>
          if isReply m \<and> inherited (env_id m) then (Threw TypeError, s)
          else deliver beh fuel m s)"

section \<open>Connecting\<close>

text \<open>
  \<^verbatim>\<open>new URL(x).origin\<close> belongs to the platform. It is a parameter \<open>urlOrigin\<close>
  of everything that parses a URL: \<open>None\<close> is the TypeError of an invalid URL.
\<close>

fun allowedLoop :: "(string \<Rightarrow> string option) \<Rightarrow> string \<Rightarrow> string list \<Rightarrow> error + bool" where
  "allowedLoop urlOrigin normalizedOrigin [] = Inr False"
| "allowedLoop urlOrigin normalizedOrigin (allowedOrigin # rest) =
     (case urlOrigin allowedOrigin of
        None \<Rightarrow> Inl TypeError
      | Some a \<Rightarrow> if a = normalizedOrigin then Inr True
                  else allowedLoop urlOrigin normalizedOrigin rest)"

definition isAllowedOrigin :: "(string \<Rightarrow> string option) \<Rightarrow> string \<Rightarrow> string list \<Rightarrow> error + bool" where
  "isAllowedOrigin urlOrigin origin allowedOrigins =
     (case urlOrigin origin of
        None \<Rightarrow> Inl TypeError
      | Some normalizedOrigin \<Rightarrow> allowedLoop urlOrigin normalizedOrigin allowedOrigins)"

text \<open>
  \<^verbatim>\<open>addEventListener\<close> ignores a function that is registered already;
  \<^verbatim>\<open>removeEventListener\<close> of a function that is not registered, or of null, does
  nothing.
\<close>

definition addReceiver :: "'a \<Rightarrow> 'a list \<Rightarrow> 'a list" where
  "addReceiver f fs = (if f \<in> set fs then fs else fs @ [f])"

definition removeReceiver :: "'a option \<Rightarrow> 'a list \<Rightarrow> 'a list" where
  "removeReceiver f fs = (case f of None \<Rightarrow> fs | Some g \<Rightarrow> removeAll g fs)"

definition reject :: "nat \<Rightarrow> reason \<Rightarrow> messenger \<Rightarrow> messenger" where
  "reject promise why s = s\<lparr>rejectCalls := rejectCalls s @ [(promise, why)]\<rparr>"

definition settled :: "nat \<Rightarrow> messenger \<Rightarrow> bool" where
  "settled promise s =
     (promise \<in> fst ` set (resolveCalls s) \<or> promise \<in> fst ` set (rejectCalls s))"

text \<open>
  The executor of \<^verbatim>\<open>listen\<close>. The promise is numbered \<open>fresh s\<close>; the flag its
  \<^verbatim>\<open>then\<close> callback closes over is kept in \<open>thenDelay\<close>. \<open>None\<close> for
  \<open>allowedOrigins\<close> is an argument that is not an array; the message of that
  rejection ends with the argument's string conversion, which is not modelled. Nothing
  here assigns \<^verbatim>\<open>listening_\<close>.
\<close>

definition listen :: "string list option \<Rightarrow> bool \<Rightarrow> messenger \<Rightarrow> messenger" where
  "listen allowedOrigins delayConnectHandshake s =
     (let promise = fresh s;
          s0 = s\<lparr>fresh := Suc (fresh s),
                 thenDelay := (thenDelay s)(promise \<mapsto> delayConnectHandshake)\<rparr>
      in if connected s0 then reject promise (Err ''Already connected.'') s0
         else if listening s0 then reject promise (Err ''Already listening for connections.'') s0
         else (case allowedOrigins of
                 None \<Rightarrow>
                   reject promise
                     (Err (''allowedOrigins should be a string array of '' @
                           ''allowed origins to accept messages from. Got:'')) s0
               | Some origins \<Rightarrow>
                   (let f = ListenProc (fresh s0) origins promise in
                    s0\<lparr>onListenConnectionMessageReceivedProc := Some f,
                       windowReceivers := addReceiver f (windowReceivers s0),
                       fresh := Suc (fresh s0)\<rparr>)))"

text \<open>
  The \<^verbatim>\<open>then\<close> callback of \<^verbatim>\<open>listen\<close>, and
  \<^verbatim>\<open>finishListenHandshake\<close>.
\<close>

definition finishListenHandshake :: "8 word list \<Rightarrow> messenger \<Rightarrow> status \<times> messenger" where
  "finishListenHandshake rnd s =
     (case send CONNECT_HANDSHAKE JNull rnd s of
        (Returned, s1) \<Rightarrow> (Returned, s1\<lparr>connected := True\<rparr>)
      | (st, s1) \<Rightarrow> (st, s1))"

definition listenThen :: "bool \<Rightarrow> 8 word list \<Rightarrow> messenger \<Rightarrow> status \<times> messenger" where
  "listenThen delayConnectHandshake rnd s =
     (if delayConnectHandshake then (Returned, s)
      else (case send CONNECT_HANDSHAKE JNull rnd s of
              (Returned, s1) \<Rightarrow> (Returned, s1\<lparr>connected := True\<rparr>)
            | (st, s1) \<Rightarrow> (st, s1)))"

text \<open>
  \<^verbatim>\<open>onListenConnectionMessageReceived_\<close>, with the bound arguments. When the
  message carries no port, \<^verbatim>\<open>messagePorts[0]\<close> is undefined and the call of
  \<^verbatim>\<open>addEventListener\<close> on it throws, after the receiver was removed.
\<close>

definition onListenConnectionMessageReceived ::
    "(string \<Rightarrow> string option) \<Rightarrow> string list \<Rightarrow> nat \<Rightarrow> messageEvent \<Rightarrow> messenger
       \<Rightarrow> status \<times> messenger" where
  "onListenConnectionMessageReceived urlOrigin allowedOrigins resolvePromise ev s =
     (let message = ev_data ev in
      case isAllowedOrigin urlOrigin (ev_origin ev) allowedOrigins of
        Inl e \<Rightarrow> (Threw e, s)
      | Inr allowed \<Rightarrow>
          if \<not> allowed then (Returned, s)
          else if \<not> truthy message \<or> getProp message ''topic'' \<noteq> JStr CONNECT_HANDSHAKE
          then (Returned, s)
          else
            (let f = ChannelProc (fresh s);
                 s1 = s\<lparr>windowReceivers :=
                          removeReceiver (onListenConnectionMessageReceivedProc s) (windowReceivers s),
                        onChannelMessageReceivedProc := Some f,
                        fresh := Suc (fresh s)\<rparr>
             in case ev_ports ev of
                  [] \<Rightarrow> (Threw TypeError, s1\<lparr>messagePort := None\<rparr>)
                | port # others \<Rightarrow>
                    (Returned,
                     s1\<lparr>messagePort := Some port,
                        portReceivers := addReceiver (port, f) (portReceivers s1),
                        startedPorts := startedPorts s1 @ [port],
                        resolveCalls := resolveCalls s1 @ [(resolvePromise, Void)]\<rparr>)))"

text \<open>
  The executor of \<^verbatim>\<open>connect\<close>. \<open>None\<close> is an absent window or origin; an empty
  origin string is falsy too. The two argument checks reject and go on; the state checks
  reject and return. Nothing here assigns \<^verbatim>\<open>connecting_\<close>. A throw inside the
  executor (\<^verbatim>\<open>postMessage\<close> on an absent window, \<^verbatim>\<open>new URL\<close> of an invalid
  origin) is handed to \<^verbatim>\<open>reject\<close> by the Promise constructor.
\<close>

definition handshakeMessage :: jsval where
  "handshakeMessage = JObj [(''topic'', JStr CONNECT_HANDSHAKE)]"

definition targetOrigin :: "(string \<Rightarrow> string option) \<Rightarrow> string option \<Rightarrow> string option" where
  "targetOrigin urlOrigin expectedRemoteOrigin =
     (case expectedRemoteOrigin of
        None \<Rightarrow> None
      | Some origin \<Rightarrow> if origin = ''*'' then Some ''*'' else urlOrigin origin)"

definition connect ::
    "(string \<Rightarrow> string option) \<Rightarrow> nat option \<Rightarrow> string option \<Rightarrow> messenger \<Rightarrow> messenger" where
  "connect urlOrigin remoteWindowContext expectedRemoteOrigin s =
     (let promise = fresh s;
          s0 = s\<lparr>fresh := Suc (fresh s)\<rparr>;
          s1 = (if remoteWindowContext = None
                then reject promise (Err ''Provide a valid Window context to connect to.'') s0
                else s0);
          s2 = (if expectedRemoteOrigin = None \<or> expectedRemoteOrigin = Some []
                then reject promise
                  (Err ''Provide an expected origin for the remote Window or provide the wildcard *.'') s1
                else s1)
      in if connected s2 then reject promise (Err ''Already connected.'') s2
         else if connecting s2 then reject promise (Err ''Already connecting.'') s2
         else
           (let port1 = fresh s2;
                port2 = Suc (fresh s2);
                f = ConnectProc (Suc (Suc (fresh s2))) port1 expectedRemoteOrigin promise;
                s3 = s2\<lparr>channel := Some (port1, port2),
                        messagePort := Some port1,
                        onConnectConnectionMessageReceivedProc := Some f,
                        portReceivers := addReceiver (port1, f) (portReceivers s2),
                        startedPorts := startedPorts s2 @ [port1],
                        fresh := Suc (Suc (Suc (fresh s2)))\<rparr>
            in case remoteWindowContext of
                 None \<Rightarrow> reject promise (Exn TypeError) s3
               | Some w \<Rightarrow>
                   (case targetOrigin urlOrigin expectedRemoteOrigin of
                      None \<Rightarrow> reject promise (Exn TypeError) s3
                    | Some target \<Rightarrow>
                        s3\<lparr>windowPosts := windowPosts s3 @ [(w, handshakeMessage, target, port2)]\<rparr>)))"

text \<open>\<^verbatim>\<open>onConnectConnectionMessageReceived_\<close>, with the bound arguments.\<close>

definition onConnectConnectionMessageReceived ::
    "nat \<Rightarrow> string option \<Rightarrow> nat \<Rightarrow> messenger \<Rightarrow> messenger" where
  "onConnectConnectionMessageReceived port expectedRemoteOrigin resolvePromise s =
     (let f = ChannelProc (fresh s);
          kept = (case onConnectConnectionMessageReceivedProc s of
                    None \<Rightarrow> portReceivers s
                  | Some g \<Rightarrow> removeAll (port, g) (portReceivers s))
      in s\<lparr>connected := True,
           onChannelMessageReceivedProc := Some f,
           portReceivers := addReceiver (port, f) kept,
           fresh := Suc (fresh s),
           resolveCalls := resolveCalls s @ [(resolvePromise, Void)]\<rparr>)"

section \<open>The platform's delivery of events\<close>

text \<open>
  A message event on the window is handed to the receivers registered when the dispatch
  starts, in order, skipping one that an earlier receiver removed. After a receiver
  returns or throws, the platform runs the promise jobs: when the receiver settled its
  \<^verbatim>\<open>listen\<close> promise for the first time, the \<^verbatim>\<open>then\<close> callback runs with the
  flag it closed over and with random bytes of its own.
\<close>

fun deliverWindow ::
    "(string \<Rightarrow> string option) \<Rightarrow> (nat \<Rightarrow> 8 word list) \<Rightarrow> proc list \<Rightarrow> messageEvent
       \<Rightarrow> messenger \<Rightarrow> messenger" where
  "deliverWindow urlOrigin rnds [] ev s = s"
| "deliverWindow urlOrigin rnds (f # fs) ev s =
     (if f \<in> set (windowReceivers s)
      then (case f of
              ListenProc n allowedOrigins promise \<Rightarrow>
                (let s1 = snd (onListenConnectionMessageReceived urlOrigin allowedOrigins promise ev s);
                     s2 = (if \<not> settled promise s \<and> promise \<in> fst ` set (resolveCalls s1)
                           then (case thenDelay s1 promise of
                                   Some delayConnectHandshake \<Rightarrow>
                                     snd (listenThen delayConnectHandshake (rnds promise) s1)
                                 | None \<Rightarrow> s1)
                           else s1)
                 in deliverWindow urlOrigin rnds fs ev s2)
            | ConnectProc n port origin promise \<Rightarrow> deliverWindow urlOrigin rnds fs ev s
            | ChannelProc n \<Rightarrow> deliverWindow urlOrigin rnds fs ev s)
      else deliverWindow urlOrigin rnds fs ev s)"

definition windowMessage ::
    "(string \<Rightarrow> string option) \<Rightarrow> (nat \<Rightarrow> 8 word list) \<Rightarrow> messageEvent \<Rightarrow> messenger \<Rightarrow> messenger" where
  "windowMessage urlOrigin rnds ev s = deliverWindow urlOrigin rnds (windowReceivers s) ev s"

text \<open>A message on a port goes to the receivers registered on that port.\<close>

fun deliverPort ::
    "behaviour \<Rightarrow> nat \<Rightarrow> (nat \<times> proc) list \<Rightarrow> nat \<Rightarrow> envelope \<Rightarrow> messenger \<Rightarrow> messenger" where
  "deliverPort beh fuel [] port m s = s"
| "deliverPort beh fuel ((p, f) # fs) port m s =
     (if p = port \<and> (p, f) \<in> set (portReceivers s)
      then (case f of
              ListenProc n allowedOrigins promise \<Rightarrow> deliverPort beh fuel fs port m s
            | ConnectProc n bound origin promise \<Rightarrow>
                deliverPort beh fuel fs port m
                  (onConnectConnectionMessageReceived bound origin promise s)
            | ChannelProc n \<Rightarrow>
                deliverPort beh fuel fs port m (snd (onChannelMessageReceived beh fuel m s)))
      else deliverPort beh fuel fs port m s)"

definition portMessage :: "behaviour \<Rightarrow> nat \<Rightarrow> nat \<Rightarrow> envelope \<Rightarrow> messenger \<Rightarrow> messenger" where
  "portMessage beh fuel port m s = deliverPort beh fuel (portReceivers s) port m s"

text \<open>
  What can happen to a messenger whose owner listens and subscribes: inbound messages
  on the window and on ports, and the owner's calls of \<^verbatim>\<open>on\<close>, \<^verbatim>\<open>off\<close> and
  \<^verbatim>\<open>listen\<close>. An uncaught throw of a call or of a receiver leaves its state behind
  and the event loop goes on.
\<close>

datatype event =
    WindowMessage messageEvent
  | PortMessage nat envelope
  | On string nat
  | Off string "nat option"
  | Listen "string list option" bool

fun step ::
    "behaviour \<Rightarrow> (string \<Rightarrow> string option) \<Rightarrow> (nat \<Rightarrow> 8 word list) \<Rightarrow> nat \<Rightarrow> event
       \<Rightarrow> messenger \<Rightarrow> messenger" where
  "step beh urlOrigin rnds fuel (WindowMessage ev) s = windowMessage urlOrigin rnds ev s"
| "step beh urlOrigin rnds fuel (PortMessage port m) s = portMessage beh fuel port m s"
| "step beh urlOrigin rnds fuel (On topic cb) s = on topic cb s"
| "step beh urlOrigin rnds fuel (Off topic cb) s = snd (off topic cb s)"
| "step beh urlOrigin rnds fuel (Listen allowedOrigins delayConnectHandshake) s =
     listen allowedOrigins delayConnectHandshake s"

fun runEvents ::
    "behaviour \<Rightarrow> (string \<Rightarrow> string option) \<Rightarrow> (nat \<Rightarrow> 8 word list) \<Rightarrow> nat \<Rightarrow> event list
       \<Rightarrow> messenger \<Rightarrow> messenger" where
  "runEvents beh urlOrigin rnds fuel [] s = s"
| "runEvents beh urlOrigin rnds fuel (e # es) s =
     runEvents beh urlOrigin rnds fuel es (step beh urlOrigin rnds fuel e s)"

fun delayedOnly :: "event \<Rightarrow> bool" where
  "delayedOnly (Listen allowedOrigins delayConnectHandshake) = delayConnectHandshake"
| "delayedOnly e = True"

section \<open>The alternate-origin prober\<close>

text \<open>\<^verbatim>\<open>String.prototype.indexOf\<close>.\<close>

fun startsWith :: "'a list \<Rightarrow> 'a list \<Rightarrow> bool" where
  "startsWith xs [] = True"
| "startsWith [] (y # ys) = False"
| "startsWith (x # xs) (y # ys) = (x = y \<and> startsWith xs ys)"

fun stringIndexOf :: "string \<Rightarrow> string \<Rightarrow> int" where
  "stringIndexOf [] t = (if t = [] then 0 else - 1)"
| "stringIndexOf (c # cs) t =
     (if startsWith (c # cs) t then 0
      else (let r = stringIndexOf cs t in if r = - 1 then - 1 else r + 1))"

text \<open>
  The value \<^verbatim>\<open>isSubscribedToAltOrigin\<close> returns for a reported state. The
  conjunction short-circuits; \<^verbatim>\<open>serviceWorkerUrl.indexOf\<close> is reached only when the
  first four conjuncts hold. On a string it searches for the fragment, on an array for an
  element equal to it, and on anything else it is a TypeError. Reading a property of a
  null or undefined report is a TypeError as well.
\<close>

definition evaluateState :: "jsval \<Rightarrow> error + bool" where
  "evaluateState subscriptionState =
     (if subscriptionState = JUndefined \<or> subscriptionState = JNull then Inl TypeError
      else if getProp subscriptionState ''notificationPermission'' = JStr ''granted'' \<and>
              getProp subscriptionState ''serviceWorkerIsControllingFrame'' = JBool True \<and>
              getProp subscriptionState ''serviceWorkerState'' = JStr ''activated'' \<and>
              getProp subscriptionState ''serviceWorkerSubscriptionState'' = JBool True
      then (case getProp subscriptionState ''serviceWorkerUrl'' of
              JStr u \<Rightarrow> Inr (stringIndexOf u ''OneSignalSDKWorker.js'' \<noteq> - 1)
            | JArr xs \<Rightarrow> Inr (indexOf xs (JStr ''OneSignalSDKWorker.js'') \<noteq> - 1)
            | JUndefined \<Rightarrow> Inl TypeError
            | JNull \<Rightarrow> Inl TypeError
            | JBool b \<Rightarrow> Inl TypeError
            | JNum n \<Rightarrow> Inl TypeError
            | JObj kvs \<Rightarrow> Inl TypeError)
      else Inr False)"

text \<open>
  What the environment does with one probe target: the frame never fires its load event,
  it loads and no state report ever arrives, or a report arrives. An awaited result is a
  value, a rejection, or never comes.
\<close>

datatype probe = NeverLoads | NeverReplies | Replies jsval

datatype 'a awaited = Value 'a | Rejects error | Pending

text \<open>
  \<^verbatim>\<open>isSubscribedToAltOrigin(url)\<close>: \<^verbatim>\<open>new URL(url).origin\<close> for the messenger's
  allow-list, then the two awaits, then \<^verbatim>\<open>removeIframe(url)\<close>, then the evaluation
  of the report. \<^verbatim>\<open>removeIframe\<close> hands \<^verbatim>\<open>document.querySelector\<close> a selector
  built from the raw URL; whether the platform parses that selector is the parameter
  \<open>selectorParses\<close>, and it throws a SyntaxError when it does not.
\<close>

definition isSubscribedToAltOrigin ::
    "(string \<Rightarrow> string option) \<Rightarrow> (string \<Rightarrow> bool) \<Rightarrow> string \<Rightarrow> probe \<Rightarrow> bool awaited" where
  "isSubscribedToAltOrigin urlOrigin selectorParses url answer =
     (case urlOrigin url of
        None \<Rightarrow> Rejects TypeError
      | Some origin \<Rightarrow>
          (case answer of
             NeverLoads \<Rightarrow> Pending
           | NeverReplies \<Rightarrow> Pending
           | Replies subscriptionState \<Rightarrow>
               if \<not> selectorParses url then Rejects SyntaxError
               else (case evaluateState subscriptionState of
                       Inl e \<Rightarrow> Rejects e
                     | Inr isSubscribed \<Rightarrow> Value isSubscribed)))"

text \<open>
  \<^verbatim>\<open>AlternateSubscriptionChecker.run\<close> over the targets, each with the environment's
  answer. \<^verbatim>\<open>timeoutForever\<close> awaits a promise nothing resolves. Both log lines
  evaluate \<^verbatim>\<open>new URL(url).origin\<close>.
\<close>

datatype completion = Completed | Frozen | Stalled | Failed error

fun run ::
    "(string \<Rightarrow> string option) \<Rightarrow> (string \<Rightarrow> bool) \<Rightarrow> (string \<times> probe) list \<Rightarrow> completion" where
  "run urlOrigin selectorParses [] = Completed"
| "run urlOrigin selectorParses ((url, answer) # rest) =
     (case isSubscribedToAltOrigin urlOrigin selectorParses url answer of
        Pending \<Rightarrow> Stalled
      | Rejects e \<Rightarrow> Failed e
      | Value isSubscribed \<Rightarrow>
          (case urlOrigin url of
             None \<Rightarrow> Failed TypeError
           | Some origin \<Rightarrow>
               if isSubscribed then Frozen else run urlOrigin selectorParses rest))"

text \<open>
  \<^verbatim>\<open>listenPartially\<close> of the helper frame: four subscriptions (the bound handlers
  are new function objects) and a listen with the handshake delayed. The parent origin
  comes from the query string; when it is missing \<^verbatim>\<open>getParentOrigin_\<close> throws
  before \<^verbatim>\<open>listen\<close> is called.
\<close>

definition listenPartially :: "string option \<Rightarrow> messenger \<Rightarrow> status \<times> messenger" where
  "listenPartially parentOrigin s =
     (let s1 = on NOTIFICATION_PERMISSION_STATE (fresh s) (s\<lparr>fresh := Suc (fresh s)\<rparr>);
          s2 = on SERVICE_WORKER_STATE (fresh s1) (s1\<lparr>fresh := Suc (fresh s1)\<rparr>);
          s3 = on SERVICE_WORKER_REGISTRATION (fresh s2) (s2\<lparr>fresh := Suc (fresh s2)\<rparr>);
          s4 = on SERVICE_WORKER_QUERY (fresh s3) (s3\<lparr>fresh := Suc (fresh s3)\<rparr>)
      in case parentOrigin of
           None \<Rightarrow> (Threw UserError, s4)
         | Some origin \<Rightarrow>
             if origin = [] then (Threw UserError, s4)
             else (Returned, listen (Some [origin]) True s4))"

text \<open>
  The module's \<^verbatim>\<open>run(urlsToCheck)\<close>: the helper frame listens partially, the
  checker runs, and only when it completes is \<^verbatim>\<open>finishListenHandshake\<close> called.
  \<open>evs\<close> are the events that reach the helper frame's messenger in the meantime.
\<close>

definition runAmpWebPushHelperFrame ::
    "behaviour \<Rightarrow> (string \<Rightarrow> string option) \<Rightarrow> (string \<Rightarrow> bool) \<Rightarrow> (nat \<Rightarrow> 8 word list) \<Rightarrow> nat
       \<Rightarrow> string option \<Rightarrow> (string \<times> probe) list \<Rightarrow> event list \<Rightarrow> 8 word list
       \<Rightarrow> status \<times> messenger" where
  "runAmpWebPushHelperFrame beh urlOrigin selectorParses rnds fuel parentOrigin targets evs rnd =
     (case listenPartially parentOrigin (WindowMessenger (Some True)) of
        (Returned, s0) \<Rightarrow>
          (let s = runEvents beh urlOrigin rnds fuel evs s0 in
           case run urlOrigin selectorParses targets of
             Completed \<Rightarrow> finishListenHandshake rnd s
           | Frozen \<Rightarrow> (Returned, s)
           | Stalled \<Rightarrow> (Returned, s)
           | Failed e \<Rightarrow> (Threw e, s))
      | (st, s0) \<Rightarrow> (st, s0))"

section \<open>Vocabulary of the statements\<close>






text \<open>The log entry of a call: the subscriber, the payload, and the id and topic bound
  into the reply function it is handed.\<close>

definition called :: "envelope \<Rightarrow> nat \<Rightarrow> nat \<times> jsval \<times> string \<times> string" where
  "called m cb = (cb, env_data m, env_id m, env_topic m)"







text \<open>
  The same of the whole table: every array a topic holds was allocated before, and no two
  topics hold one array. It is true of a new messenger and every operation keeps it.
\<close>

definition ownArrays :: "messenger \<Rightarrow> bool" where
  "ownArrays s =
     ((\<forall>t a. listeners s t = Some a \<longrightarrow> a < fresh s) \<and>
      (\<forall>t u a. listeners s t = Some a \<and> listeners s u = Some a \<longrightarrow> t = u))"


text \<open>
  Calls that run inside a dispatch leave the connection alone: they change neither the
  flags nor the receivers nor the promise settlements, and all they post are replies.
\<close>

definition sameConnection :: "messenger \<Rightarrow> messenger \<Rightarrow> bool" where
  "sameConnection s s' =
     (connected s' = connected s \<and> thenDelay s' = thenDelay s \<and>
      portReceivers s' = portReceivers s \<and> windowReceivers s' = windowReceivers s \<and>
      resolveCalls s' = resolveCalls s \<and> rejectCalls s' = rejectCalls s \<and>
      messagePort s' = messagePort s \<and>
      (\<exists>new. portPosts s' = portPosts s @ new \<and> list_all (\<lambda>x. isReply (snd x)) new))"


text \<open>
  A new messenger with an open port; one with three subscribers on one topic as well;
  and a message on that topic.
\<close>

definition opened :: messenger where
  "opened = (WindowMessenger None)\<lparr>messagePort := Some 7\<rparr>"




text \<open>
  A listener that is waiting: not connected, every \<^verbatim>\<open>listen\<close> promise has a
  delayed continuation, the ports carry channel receivers only, and everything posted
  so far is a reply. The acknowledgment is the envelope \<^verbatim>\<open>send\<close> builds for the
  handshake topic.
\<close>

fun isChannel :: "proc \<Rightarrow> bool" where
  "isChannel (ChannelProc n) = True"
| "isChannel (ListenProc n allowedOrigins promise) = False"
| "isChannel (ConnectProc n port origin promise) = False"

definition waiting :: "messenger \<Rightarrow> bool" where
  "waiting s =
     (\<not> connected s \<and> (\<forall>promise. thenDelay s promise \<noteq> Some False) \<and>
      list_all (\<lambda>x. isChannel (snd x)) (portReceivers s) \<and>
      list_all (\<lambda>x. isReply (snd x)) (portPosts s))"

definition acknowledgment :: "8 word list \<Rightarrow> envelope" where
  "acknowledgment rnd =
     \<lparr>env_id = joinBytes rnd, env_topic = CONNECT_HANDSHAKE, env_data = JNull, isReply = False\<rparr>"

text \<open>
  Sample inputs: an origin parser that knows a few URLs, a handshake broadcast carrying
  port 7, a listener, the helper frame's messenger after the module's
  \<^verbatim>\<open>run([])\<close> with no event in between, and the listener after a refused and an
  accepted broadcast.
\<close>

definition sampleOrigin :: "string \<Rightarrow> string option" where
  "sampleOrigin u =
     (if u = ''https://a.example/'' \<or> u = ''https://a.example'' \<or> u = ''HTTPS://A.EXAMPLE''
      then Some ''https://a.example''
      else if u = ''https://evil.example'' then Some ''https://evil.example''
      else None)"

definition hello :: "string \<Rightarrow> messageEvent" where
  "hello origin = \<lparr>ev_data = handshakeMessage, ev_origin = origin, ev_ports = [7]\<rparr>"

definition listening0 :: messenger where
  "listening0 = listen (Some [''https://a.example/'']) True (WindowMessenger None)"

definition stranded :: messenger where
  "stranded = snd (runAmpWebPushHelperFrame (\<lambda>cb d. []) sampleOrigin (\<lambda>url. True)
     (\<lambda>promise. []) 0 (Some ''https://a.example/'') [] [] [1, 2, 3])"

definition accepted0 :: messenger where
  "accepted0 = runEvents (\<lambda>cb d. []) sampleOrigin (\<lambda>promise. []) 0
     [WindowMessage (hello ''https://evil.example''), WindowMessage (hello ''HTTPS://A.EXAMPLE'')]
     (listen (Some [''https://a.example/'']) True (WindowMessenger None))"

section \<open>Properties of the subscription table\<close>

text \<open>
  C10. For a topic that has no subscriber array (a new messenger has none, and
  \<^verbatim>\<open>off(topic)\<close> without a callback leaves none), \<^verbatim>\<open>off(topic, callback)\<close>
  with a callback throws a TypeError and changes nothing, while \<^verbatim>\<open>off(topic)\<close>
  without a callback returns and changes nothing: only that branch tests for the array.
\<close>

theorem off_with_callback_throws_without_array:
  "(listeners s topic = None \<longrightarrow>
      off topic (Some cb) s = (Threw TypeError, s) \<and> off topic None s = (Returned, s)) \<and>
   listeners (WindowMessenger options) topic = None \<and>
   listeners (snd (off topic None s)) topic = None"
  by (simp add: off_def WindowMessenger_def)

theorem off_with_callback_throws_without_array_witness:
  "off ''t'' (Some 0) (WindowMessenger None) = (Threw TypeError, WindowMessenger None) \<and>
   fst (off ''t'' (Some 0) (snd (off ''t'' None (on ''t'' 0 (WindowMessenger None))))) =
     Threw TypeError"
  using off_with_callback_throws_without_array [of "WindowMessenger None" "''t''" 0 None]
    off_with_callback_throws_without_array
      [of "snd (off ''t'' None (on ''t'' 0 (WindowMessenger None)))" "''t''" 0 None]
    off_with_callback_throws_without_array [of "on ''t'' 0 (WindowMessenger None)" "''t''" 0 None]
  by simp

section \<open>Properties of the handshake messages\<close>

lemma send_with_port:
  "messagePort s = Some p \<Longrightarrow>
   send topic data rnd s =
     (Returned, register (joinBytes rnd) topic data
        (s\<lparr>portPosts := portPosts s @
            [(p, \<lparr>env_id = joinBytes rnd, env_topic = topic, env_data = data, isReply = False\<rparr>)]\<rparr>))"
  by (simp add: send_def)

text \<open>
  C9, as the spec words it: the reserved topic would be the string
  \<^verbatim>\<open>connect-handshake\<close>. The constant of the source is another string.
\<close>

theorem handshake_topic_is_not_connect_handshake:
  "CONNECT_HANDSHAKE \<noteq> ''connect-handshake''"
  by (simp add: CONNECT_HANDSHAKE_def)

text \<open>
  C9, amended. The reserved topic is \<^verbatim>\<open>topic-connect-handshake\<close>. The broadcast
  that \<^verbatim>\<open>connect\<close> posts to the remote window is the object with that topic, and
  the acknowledgment that \<^verbatim>\<open>finishListenHandshake\<close> and the undelayed
  \<^verbatim>\<open>then\<close> callback of \<^verbatim>\<open>listen\<close> post on the port is a non-reply envelope
  with that topic and a null payload.
\<close>

theorem handshake_messages_carry_topic_connect_handshake:
  "CONNECT_HANDSHAKE = ''topic-connect-handshake'' \<and>
   (\<not> connected s \<and> \<not> connecting s \<and>
    targetOrigin urlOrigin expectedRemoteOrigin = Some target \<longrightarrow>
      windowPosts (connect urlOrigin (Some w) expectedRemoteOrigin s) =
        windowPosts s @
          [(w, JObj [(''topic'', JStr ''topic-connect-handshake'')], target, Suc (Suc (fresh s)))]) \<and>
   (messagePort s = Some p \<longrightarrow>
      portPosts (snd (finishListenHandshake rnd s)) =
        portPosts s @ [(p, \<lparr>env_id = joinBytes rnd, env_topic = ''topic-connect-handshake'',
                           env_data = JNull, isReply = False\<rparr>)] \<and>
      portPosts (snd (listenThen False rnd s)) =
        portPosts s @ [(p, \<lparr>env_id = joinBytes rnd, env_topic = ''topic-connect-handshake'',
                           env_data = JNull, isReply = False\<rparr>)])"
  by (auto simp add: CONNECT_HANDSHAKE_def connect_def reject_def Let_def handshakeMessage_def
      finishListenHandshake_def listenThen_def send_with_port register_def)

theorem handshake_messages_carry_topic_connect_handshake_witness:
  "windowPosts (connect (\<lambda>u. Some u) (Some 5) (Some ''https://a.example'') (WindowMessenger None)) =
     [(5, JObj [(''topic'', JStr ''topic-connect-handshake'')], ''https://a.example'', 2)] \<and>
   portPosts (snd (finishListenHandshake [1, 23, 255, 0]
        ((WindowMessenger None)\<lparr>messagePort := Some 7\<rparr>))) =
     [(7, \<lparr>env_id = ''1232550'', env_topic = ''topic-connect-handshake'',
           env_data = JNull, isReply = False\<rparr>)]"
  using handshake_messages_carry_topic_connect_handshake
      [of "WindowMessenger None" "\<lambda>u. Some u" "Some ''https://a.example''"
          "''https://a.example''" 5 7 "[1, 23, 255, 0]"]
    handshake_messages_carry_topic_connect_handshake
      [of "(WindowMessenger None)\<lparr>messagePort := Some 7\<rparr>" "\<lambda>u. Some u"
          "Some ''https://a.example''" "''https://a.example''" 5 7 "[1, 23, 255, 0]"]
  by (simp add: WindowMessenger_def targetOrigin_def joinBytes_def byteString_def digit_def)

section \<open>Properties of the dispatch\<close>











lemma sameConnection_refl: "sameConnection s s"
  by (simp add: sameConnection_def)

lemma sameConnection_trans:
  "sameConnection s s1 \<Longrightarrow> sameConnection s1 s2 \<Longrightarrow> sameConnection s s2"
  by (auto simp add: sameConnection_def)

lemma sameConnection_invocations:
  "sameConnection s (s\<lparr>invocations := v\<rparr>)"
  by (simp add: sameConnection_def)

lemma run_action_sameConnection: "sameConnection s (snd (run_action ident topic act s))"
  by (cases act)
    (auto simp add: sameConnection_def sendReply_def register_def on_def off_def Let_def
      split: option.splits)

lemma run_actions_sameConnection: "sameConnection s (snd (run_actions ident topic acts s))"
proof (induction acts arbitrary: s)
  case Nil
  show ?case by (simp add: sameConnection_refl)
next
  case (Cons act acts)
  obtain st s1 where r: "run_action ident topic act s = (st, s1)"
    by (cases "run_action ident topic act s")
  have one: "sameConnection s s1"
    using run_action_sameConnection [of s ident topic act] r by simp
  show ?case
  proof (cases st)
    case Returned
    with r have "snd (run_actions ident topic (act # acts) s) = snd (run_actions ident topic acts s1)"
      by simp
    with Cons.IH [of s1] one show ?thesis
      by (auto intro: sameConnection_trans)
  next
    case (Threw e)
    with r one show ?thesis by simp
  next
    case OutOfFuel
    with r one show ?thesis by simp
  qed
qed

lemma dispatch_loop_sameConnection: "sameConnection s (snd (dispatch_loop beh fuel a m i s))"
proof (induction fuel arbitrary: i s)
  case 0
  show ?case by (simp add: sameConnection_refl)
next
  case (Suc fuel)
  show ?case
  proof (cases "i < length (arrays s a)")
    case False
    then show ?thesis by (simp add: sameConnection_refl)
  next
    case True
    let ?s1 = "s\<lparr>invocations := invocations s @ [called m (arrays s a ! i)]\<rparr>"
    obtain st s2 where r:
      "run_actions (env_id m) (env_topic m) (beh (arrays s a ! i) (env_data m)) ?s1 = (st, s2)"
      by (cases "run_actions (env_id m) (env_topic m) (beh (arrays s a ! i) (env_data m)) ?s1")
    have "sameConnection ?s1 s2"
      using run_actions_sameConnection
          [of ?s1 "env_id m" "env_topic m" "beh (arrays s a ! i) (env_data m)"] r
      by simp
    with sameConnection_invocations have one: "sameConnection s s2"
      by (rule sameConnection_trans)
    show ?thesis
    proof (cases st)
      case Returned
      with r True have "dispatch_loop beh (Suc fuel) a m i s = dispatch_loop beh fuel a m (i + 1) s2"
        by (simp add: Let_def called_def)
      with Suc.IH [of s2 "i + 1"] one show ?thesis
        by (auto intro: sameConnection_trans)
    next
      case (Threw e)
      with r True one show ?thesis by (simp add: Let_def called_def)
    next
      case OutOfFuel
      with r True one show ?thesis by (simp add: Let_def called_def)
    qed
  qed
qed

lemma deliver_sameConnection: "sameConnection s (snd (deliver beh fuel m s))"
  by (simp add: deliver_def sameConnection_refl dispatch_loop_sameConnection split: option.splits)

lemma onChannelMessageReceived_sameConnection:
  "messages s (env_id m) = None \<Longrightarrow>
   sameConnection s (snd (onChannelMessageReceived beh fuel m s))"
  by (simp add: onChannelMessageReceived_def deliver_sameConnection sameConnection_refl)







lemma ownArrays_frame:
  "ownArrays s \<Longrightarrow> listeners s' = listeners s \<Longrightarrow> fresh s \<le> fresh s' \<Longrightarrow> ownArrays s'"
  unfolding ownArrays_def by (metis less_le_trans)


lemma ownArrays_on: "ownArrays s \<Longrightarrow> ownArrays (on topic cb s)"
proof (cases "listeners s topic")
  case None
  assume o: "ownArrays s"
  show ?thesis
  proof (cases "inherited topic")
    case True
    with None o show ?thesis by (simp add: on_def)
  next
    case False
    have l: "listeners (on topic cb s) = (listeners s)(topic \<mapsto> fresh s)"
      and f: "fresh (on topic cb s) = Suc (fresh s)"
      using None False by (simp_all add: on_def)
    from o have bound: "\<And>t a. listeners s t = Some a \<Longrightarrow> a < fresh s"
      and inj: "\<And>t u a. listeners s t = Some a \<Longrightarrow> listeners s u = Some a \<Longrightarrow> t = u"
      unfolding ownArrays_def by blast+
    have "\<forall>t a. listeners (on topic cb s) t = Some a \<longrightarrow> a < fresh (on topic cb s)"
      unfolding l f using bound by (auto simp add: less_Suc_eq)
    moreover have "\<forall>t u a. listeners (on topic cb s) t = Some a \<and>
        listeners (on topic cb s) u = Some a \<longrightarrow> t = u"
      unfolding l using bound inj by (auto split: if_splits)
    ultimately show ?thesis unfolding ownArrays_def by blast
  qed
next
  case (Some a)
  assume o: "ownArrays s"
  have "listeners (on topic cb s) = listeners s" "fresh s \<le> fresh (on topic cb s)"
    using Some by (simp_all add: on_def)
  with o show ?thesis by (rule ownArrays_frame)
qed

lemma ownArrays_off: "ownArrays s \<Longrightarrow> ownArrays (snd (off topic cb s))"
proof -
  assume o: "ownArrays s"
  have f: "fresh (snd (off topic cb s)) = fresh s"
    by (auto simp add: off_def Let_def split: option.splits)
  have "listeners (snd (off topic cb s)) = listeners s \<or>
        listeners (snd (off topic cb s)) = (listeners s)(topic := None)"
    by (auto simp add: off_def Let_def split: option.splits)
  then show ?thesis
  proof
    assume "listeners (snd (off topic cb s)) = listeners s"
    with o show ?thesis by (rule ownArrays_frame) (simp add: f)
  next
    assume l: "listeners (snd (off topic cb s)) = (listeners s)(topic := None)"
    from o show ?thesis
      unfolding ownArrays_def l f by (auto split: if_splits)
  qed
qed


lemma ownArrays_run_action: "ownArrays s \<Longrightarrow> ownArrays (snd (run_action ident topic act s))"
proof (cases act)
  case (CallReply d)
  assume o: "ownArrays s"
  have "listeners (snd (sendReply ident topic d s)) = listeners s"
    "fresh s \<le> fresh (snd (sendReply ident topic d s))"
    by (simp_all add: sendReply_def register_def Let_def split: option.splits)
  with o have "ownArrays (snd (sendReply ident topic d s))" by (rule ownArrays_frame)
  with CallReply show ?thesis by simp
next
  case (CallOn t cb)
  assume "ownArrays s"
  with CallOn show ?thesis by (simp add: ownArrays_on)
next
  case (CallOff t cb)
  assume "ownArrays s"
  with CallOff show ?thesis by (simp add: ownArrays_off)
next
  case Throw
  assume "ownArrays s"
  with Throw show ?thesis by simp
qed

lemma ownArrays_run_actions: "ownArrays s \<Longrightarrow> ownArrays (snd (run_actions ident topic acts s))"
proof (induction acts arbitrary: s)
  case Nil
  then show ?case by simp
next
  case (Cons act acts)
  obtain st s1 where r: "run_action ident topic act s = (st, s1)"
    by (cases "run_action ident topic act s")
  have one: "ownArrays s1"
    using ownArrays_run_action [OF Cons.prems, of ident topic act] r by simp
  show ?case
  proof (cases st)
    case Returned
    with r Cons.IH [OF one] show ?thesis by simp
  next
    case (Threw e)
    with r one show ?thesis by simp
  next
    case OutOfFuel
    with r one show ?thesis by simp
  qed
qed

lemma ownArrays_invocations: "ownArrays (s\<lparr>invocations := v\<rparr>) = ownArrays s"
  by (simp add: ownArrays_def)

lemma ownArrays_dispatch_loop: "ownArrays s \<Longrightarrow> ownArrays (snd (dispatch_loop beh fuel a m i s))"
proof (induction fuel arbitrary: i s)
  case 0
  then show ?case by simp
next
  case (Suc fuel)
  show ?case
  proof (cases "i < length (arrays s a)")
    case False
    with Suc.prems show ?thesis by simp
  next
    case True
    let ?s1 = "s\<lparr>invocations := invocations s @ [called m (arrays s a ! i)]\<rparr>"
    obtain st s2 where r:
      "run_actions (env_id m) (env_topic m) (beh (arrays s a ! i) (env_data m)) ?s1 = (st, s2)"
      by (cases "run_actions (env_id m) (env_topic m) (beh (arrays s a ! i) (env_data m)) ?s1")
    have "ownArrays ?s1" using Suc.prems by (simp add: ownArrays_invocations)
    from ownArrays_run_actions [OF this, of "env_id m" "env_topic m" "beh (arrays s a ! i) (env_data m)"]
    have one: "ownArrays s2" using r by simp
    show ?thesis
    proof (cases st)
      case Returned
      with r True have "dispatch_loop beh (Suc fuel) a m i s = dispatch_loop beh fuel a m (i + 1) s2"
        by (simp add: Let_def called_def)
      with Suc.IH [OF one, of "i + 1"] show ?thesis by simp
    next
      case (Threw e)
      with r True one show ?thesis by (simp add: Let_def called_def)
    next
      case OutOfFuel
      with r True one show ?thesis by (simp add: Let_def called_def)
    qed
  qed
qed

lemma ownArrays_onChannel:
  "ownArrays s \<Longrightarrow> ownArrays (snd (onChannelMessageReceived beh fuel m s))"
proof -
  assume o: "ownArrays s"
  have d: "ownArrays (snd (deliver beh fuel m s))"
    using o by (simp add: deliver_def ownArrays_dispatch_loop split: option.splits)
  have "ownArrays (s\<lparr>messages := ms, resolveCalls := rs\<rparr>)" for ms rs
    using o by (simp add: ownArrays_def)
  with d o show ?thesis
    by (simp add: onChannelMessageReceived_def split: option.splits)
qed

lemma ownArrays_onListen:
  "ownArrays s \<Longrightarrow>
   ownArrays (snd (onListenConnectionMessageReceived urlOrigin allowedOrigins promise ev s))"
proof -
  assume o: "ownArrays s"
  have "listeners (snd (onListenConnectionMessageReceived urlOrigin allowedOrigins promise ev s)) =
          listeners s"
    "fresh s \<le> fresh (snd (onListenConnectionMessageReceived urlOrigin allowedOrigins promise ev s))"
    by (auto simp add: onListenConnectionMessageReceived_def Let_def split: sum.splits list.splits)
  with o show ?thesis by (rule ownArrays_frame)
qed

lemma ownArrays_listenThen: "ownArrays s \<Longrightarrow> ownArrays (snd (listenThen delay rnd s))"
proof -
  assume o: "ownArrays s"
  have "listeners (snd (listenThen delay rnd s)) = listeners s"
    "fresh s \<le> fresh (snd (listenThen delay rnd s))"
    by (auto simp add: listenThen_def send_def register_def Let_def split: option.splits)
  with o show ?thesis by (rule ownArrays_frame)
qed

lemma ownArrays_deliverWindow:
  "ownArrays s \<Longrightarrow> ownArrays (deliverWindow urlOrigin rnds fs ev s)"
proof (induction fs arbitrary: s)
  case Nil
  then show ?case by simp
next
  case (Cons f fs)
  show ?case
  proof (cases f)
    case (ListenProc n allowedOrigins promise)
    let ?s1 = "snd (onListenConnectionMessageReceived urlOrigin allowedOrigins promise ev s)"
    have o1: "ownArrays ?s1" using Cons.prems by (rule ownArrays_onListen)
    have o2: "ownArrays (case thenDelay ?s1 promise of
             Some delayConnectHandshake \<Rightarrow> snd (listenThen delayConnectHandshake (rnds promise) ?s1)
           | None \<Rightarrow> ?s1)"
      using o1 by (simp add: ownArrays_listenThen split: option.splits)
    show ?thesis
      using ListenProc Cons.IH [OF o1] Cons.IH [OF o2] Cons.IH [OF Cons.prems]
      by (simp add: Let_def)
  next
    case (ConnectProc n port origin promise)
    with Cons show ?thesis by simp
  next
    case (ChannelProc n)
    with Cons show ?thesis by simp
  qed
qed

lemma ownArrays_deliverPort:
  "ownArrays s \<Longrightarrow> ownArrays (deliverPort beh fuel fs port m s)"
proof (induction fs arbitrary: s)
  case Nil
  then show ?case by simp
next
  case (Cons pf fs)
  obtain p f where pf: "pf = (p, f)" by (cases pf)
  have c: "ownArrays (onConnectConnectionMessageReceived bound origin promise s)"
    for bound origin promise
  proof -
    have "listeners (onConnectConnectionMessageReceived bound origin promise s) = listeners s"
      "fresh s \<le> fresh (onConnectConnectionMessageReceived bound origin promise s)"
      by (simp_all add: onConnectConnectionMessageReceived_def Let_def)
    with Cons.prems show ?thesis by (rule ownArrays_frame)
  qed
  have ch: "ownArrays (snd (onChannelMessageReceived beh fuel m s))"
    using Cons.prems by (rule ownArrays_onChannel)
  show ?case
    using pf Cons.IH [OF Cons.prems] Cons.IH [OF c] Cons.IH [OF ch]
    by (cases f) simp_all
qed

lemma ownArrays_listen: "ownArrays s \<Longrightarrow> ownArrays (listen allowedOrigins delay s)"
proof -
  assume o: "ownArrays s"
  have "listeners (listen allowedOrigins delay s) = listeners s"
    "fresh s \<le> fresh (listen allowedOrigins delay s)"
    by (auto simp add: listen_def reject_def Let_def split: option.splits)
  with o show ?thesis by (rule ownArrays_frame)
qed

lemma ownArrays_step: "ownArrays s \<Longrightarrow> ownArrays (step beh urlOrigin rnds fuel e s)"
  by (cases e)
    (simp_all add: windowMessage_def portMessage_def ownArrays_deliverWindow
      ownArrays_deliverPort ownArrays_on ownArrays_off ownArrays_listen)

lemma ownArrays_runEvents:
  "ownArrays s \<Longrightarrow> ownArrays (runEvents beh urlOrigin rnds fuel evs s)"
  by (induction evs arbitrary: s) (simp_all add: ownArrays_step)

lemma ownArrays_send: "ownArrays s \<Longrightarrow> ownArrays (snd (send topic data rnd s))"
proof -
  assume o: "ownArrays s"
  have "listeners (snd (send topic data rnd s)) = listeners s"
    "fresh s \<le> fresh (snd (send topic data rnd s))"
    by (simp_all add: send_def register_def Let_def split: option.splits)
  with o show ?thesis by (rule ownArrays_frame)
qed

lemma ownArrays_connect:
  "ownArrays s \<Longrightarrow> ownArrays (connect urlOrigin remoteWindowContext expectedRemoteOrigin s)"
proof -
  assume o: "ownArrays s"
  have "listeners (connect urlOrigin remoteWindowContext expectedRemoteOrigin s) = listeners s"
    "fresh s \<le> fresh (connect urlOrigin remoteWindowContext expectedRemoteOrigin s)"
    by (auto simp add: connect_def reject_def Let_def split: option.splits)
  with o show ?thesis by (rule ownArrays_frame)
qed



















section \<open>Properties of the correlation registry\<close>

text \<open>
  C1. With an open port, \<^verbatim>\<open>send(topic, data)\<close> returns and stores a pending
  exchange under the id made of its random bytes, for a new promise. A reply envelope
  with that id then returns, removes the exchange, and calls the promise's resolver
  once, with the reply's payload and a reply function bound to the id and the topic of
  the request. After that no reply with the same id adds a resolver call, whatever the
  subscribers do.
\<close>

theorem reply_resolves_pending_exchange_once:
  assumes "messagePort s = Some p"
  shows "fst (send topic data rnd s) = Returned \<and>
     messages (snd (send topic data rnd s)) (joinBytes rnd) =
       Some \<lparr>pe_message = data, pe_topic = topic, promiseResolver = fresh s\<rparr> \<and>
     resolveCalls (snd (send topic data rnd s)) = resolveCalls s \<and>
     fst (onChannelMessageReceived beh fuel
            \<lparr>env_id = joinBytes rnd, env_topic = t, env_data = d, isReply = True\<rparr>
            (snd (send topic data rnd s))) = Returned \<and>
     messages (snd (onChannelMessageReceived beh fuel
            \<lparr>env_id = joinBytes rnd, env_topic = t, env_data = d, isReply = True\<rparr>
            (snd (send topic data rnd s)))) (joinBytes rnd) = None \<and>
     resolveCalls (snd (onChannelMessageReceived beh fuel
            \<lparr>env_id = joinBytes rnd, env_topic = t, env_data = d, isReply = True\<rparr>
            (snd (send topic data rnd s)))) =
       resolveCalls s @ [(fresh s, ReplyOutcome d (joinBytes rnd) topic)] \<and>
     (\<forall>beh' fuel' t' d'.
        resolveCalls (snd (onChannelMessageReceived beh' fuel'
          \<lparr>env_id = joinBytes rnd, env_topic = t', env_data = d', isReply = True\<rparr>
          (snd (onChannelMessageReceived beh fuel
            \<lparr>env_id = joinBytes rnd, env_topic = t, env_data = d, isReply = True\<rparr>
            (snd (send topic data rnd s)))))) =
        resolveCalls s @ [(fresh s, ReplyOutcome d (joinBytes rnd) topic)])"
proof -
  let ?s1 = "register (joinBytes rnd) topic data
        (s\<lparr>portPosts := portPosts s @
            [(p, \<lparr>env_id = joinBytes rnd, env_topic = topic, env_data = data, isReply = False\<rparr>)]\<rparr>)"
  let ?s2 = "?s1\<lparr>messages := (messages ?s1)(joinBytes rnd := None),
                 resolveCalls := resolveCalls ?s1 @
                   [(fresh s, ReplyOutcome d (joinBytes rnd) topic)]\<rparr>"
  have a: "send topic data rnd s = (Returned, ?s1)"
    using assms by (rule send_with_port)
  have b: "messages ?s1 (joinBytes rnd) =
       Some \<lparr>pe_message = data, pe_topic = topic, promiseResolver = fresh s\<rparr>"
    by (simp add: register_def)
  have c: "resolveCalls ?s1 = resolveCalls s"
    by (simp add: register_def)
  have d: "onChannelMessageReceived beh fuel
       \<lparr>env_id = joinBytes rnd, env_topic = t, env_data = d, isReply = True\<rparr> ?s1 = (Returned, ?s2)"
    by (simp add: onChannelMessageReceived_def register_def)
  have e: "messages ?s2 (joinBytes rnd) = None"
    by simp
  have f: "resolveCalls ?s2 = resolveCalls s @ [(fresh s, ReplyOutcome d (joinBytes rnd) topic)]"
    by (simp add: register_def)
  have g: "resolveCalls (snd (onChannelMessageReceived beh' fuel'
          \<lparr>env_id = joinBytes rnd, env_topic = t', env_data = d', isReply = True\<rparr> ?s2)) =
        resolveCalls ?s2" for beh' fuel' t' d'
  proof -
    have "messages ?s2 (env_id \<lparr>env_id = joinBytes rnd, env_topic = t', env_data = d',
        isReply = True\<rparr>) = None"
      by simp
    then have "sameConnection ?s2 (snd (onChannelMessageReceived beh' fuel'
          \<lparr>env_id = joinBytes rnd, env_topic = t', env_data = d', isReply = True\<rparr> ?s2))"
      by (rule onChannelMessageReceived_sameConnection)
    then show ?thesis
      by (simp add: sameConnection_def)
  qed
  show ?thesis
    unfolding a snd_conv fst_conv d using b c e f g by simp
qed

theorem reply_resolves_pending_exchange_once_witness:
  "resolveCalls (snd (onChannelMessageReceived (\<lambda>cb d. []) 0
       \<lparr>env_id = ''123'', env_topic = ''pong'', env_data = JNum 2, isReply = True\<rparr>
       (snd (send ''ping'' (JNum 1) [1, 2, 3] opened)))) =
     [(0, ReplyOutcome (JNum 2) ''123'' ''ping'')] \<and>
   messages (snd (onChannelMessageReceived (\<lambda>cb d. []) 0
       \<lparr>env_id = ''123'', env_topic = ''pong'', env_data = JNum 2, isReply = True\<rparr>
       (snd (send ''ping'' (JNum 1) [1, 2, 3] opened)))) ''123'' = None \<and>
   resolveCalls (snd (onChannelMessageReceived (\<lambda>cb d. [CallReply JNull]) 5
       \<lparr>env_id = ''123'', env_topic = ''pong'', env_data = JNum 3, isReply = True\<rparr>
       (snd (onChannelMessageReceived (\<lambda>cb d. []) 0
         \<lparr>env_id = ''123'', env_topic = ''pong'', env_data = JNum 2, isReply = True\<rparr>
         (snd (send ''ping'' (JNum 1) [1, 2, 3] opened)))))) =
     [(0, ReplyOutcome (JNum 2) ''123'' ''ping'')]"
proof -
  have port: "messagePort opened = Some 7" and none: "resolveCalls opened = []"
    and zero: "fresh opened = 0"
    by (simp_all add: opened_def WindowMessenger_def)
  have ident: "joinBytes [1, 2, 3] = ''123''"
    by (simp add: joinBytes_def byteString_def digit_def)
  from reply_resolves_pending_exchange_once
      [OF port, of "''ping''" "JNum 1" "[1, 2, 3]" "\<lambda>cb d. []" 0 "''pong''" "JNum 2"]
  show ?thesis
    unfolding ident none zero by simp
qed

section \<open>Properties of the listener handshake\<close>

lemma allowedLoop_True:
  "allowedLoop urlOrigin n allowedOrigins = Inr True \<Longrightarrow>
   \<exists>a\<in>set allowedOrigins. urlOrigin a = Some n"
  by (induction allowedOrigins) (auto split: option.splits if_splits)

lemma isAllowedOrigin_True:
  "isAllowedOrigin urlOrigin origin allowedOrigins = Inr True \<Longrightarrow>
   \<exists>a\<in>set allowedOrigins. \<exists>n. urlOrigin origin = Some n \<and> urlOrigin a = Some n"
  by (auto simp add: isAllowedOrigin_def split: option.splits dest: allowedLoop_True)

lemma allowedLoop_parsed:
  "\<forall>a\<in>set allowedOrigins. urlOrigin a \<noteq> None \<Longrightarrow>
   allowedLoop urlOrigin n allowedOrigins = Inr (\<exists>a\<in>set allowedOrigins. urlOrigin a = Some n)"
  by (induction allowedOrigins) (auto split: option.splits)

lemma allowedLoop_differs:
  "\<forall>a\<in>set allowedOrigins. \<exists>k. urlOrigin a = Some k \<and> k \<noteq> n \<Longrightarrow>
   allowedLoop urlOrigin n allowedOrigins = Inr False"
  by (induction allowedOrigins) auto

lemma allowedLoop_unparsed:
  "\<forall>a\<in>set before. \<exists>k. urlOrigin a = Some k \<and> k \<noteq> n \<Longrightarrow> urlOrigin entry = None \<Longrightarrow>
   allowedLoop urlOrigin n (before @ entry # rest) = Inl TypeError"
  by (induction before) auto

lemma sample_allowed:
  "isAllowedOrigin sampleOrigin ''https://evil.example'' [''https://a.example/''] = Inr False"
  "isAllowedOrigin sampleOrigin ''HTTPS://A.EXAMPLE'' [''https://a.example/''] = Inr True"
  "isAllowedOrigin sampleOrigin ''null'' [''https://a.example/''] = Inl TypeError"
  by (simp_all add: isAllowedOrigin_def sampleOrigin_def)

text \<open>
  C6, as the spec words it: every message from an origin that is not on the allow-list
  would be discarded, with nothing to observe but the log. A window whose origin is
  opaque (a sandboxed frame, a \<^verbatim>\<open>data:\<close> document) posts with the origin
  \<^verbatim>\<open>null\<close>, which \<^verbatim>\<open>new URL\<close> does not parse: the receiver does not return,
  it throws a TypeError.
\<close>

theorem handshake_from_unparsable_origin_throws:
  "sampleOrigin ''null'' = None \<and>
   onListenConnectionMessageReceived sampleOrigin [''https://a.example/''] 0
     (hello ''null'') listening0 = (Threw TypeError, listening0)"
  by (simp add: onListenConnectionMessageReceived_def isAllowedOrigin_def sampleOrigin_def
      hello_def)

text \<open>
  C6, amended. \<^verbatim>\<open>onListenConnectionMessageReceived_\<close> changes the state only when
  the sender's origin and some allow-list entry parse to the same origin and the message's
  topic is the handshake topic. A message whose origin parses and differs from the origin
  every entry parses to returns with the state as it was (receivers, port, posts and
  settlements included); so does a message from an allowed origin that is falsy or has
  another topic. When the sender's origin does not parse, or an entry that does not parse
  comes before any entry of the sender's origin, the receiver throws the TypeError of
  \<^verbatim>\<open>new URL\<close> instead of returning, again with the state as it was. When
  everything parses, the origin is allowed exactly when its normalized form equals the
  normalized form of some entry.
\<close>

theorem handshake_accepted_only_from_allowed_origin:
  "(snd (onListenConnectionMessageReceived urlOrigin allowedOrigins promise ev s) \<noteq> s \<longrightarrow>
      (\<exists>a\<in>set allowedOrigins. \<exists>n. urlOrigin (ev_origin ev) = Some n \<and> urlOrigin a = Some n) \<and>
      getProp (ev_data ev) ''topic'' = JStr CONNECT_HANDSHAKE) \<and>
   (urlOrigin (ev_origin ev) = Some n \<and>
    (\<forall>a\<in>set allowedOrigins. \<exists>k. urlOrigin a = Some k \<and> k \<noteq> n) \<longrightarrow>
      onListenConnectionMessageReceived urlOrigin allowedOrigins promise ev s = (Returned, s)) \<and>
   (urlOrigin (ev_origin ev) = None \<longrightarrow>
      onListenConnectionMessageReceived urlOrigin allowedOrigins promise ev s =
        (Threw TypeError, s)) \<and>
   (urlOrigin (ev_origin ev) = Some n \<and> allowedOrigins = before @ entry # rest \<and>
    (\<forall>a\<in>set before. \<exists>k. urlOrigin a = Some k \<and> k \<noteq> n) \<and> urlOrigin entry = None \<longrightarrow>
      onListenConnectionMessageReceived urlOrigin allowedOrigins promise ev s =
        (Threw TypeError, s)) \<and>
   (isAllowedOrigin urlOrigin (ev_origin ev) allowedOrigins = Inr False \<longrightarrow>
      onListenConnectionMessageReceived urlOrigin allowedOrigins promise ev s = (Returned, s)) \<and>
   (isAllowedOrigin urlOrigin (ev_origin ev) allowedOrigins = Inl e \<longrightarrow>
      onListenConnectionMessageReceived urlOrigin allowedOrigins promise ev s = (Threw e, s)) \<and>
   (isAllowedOrigin urlOrigin (ev_origin ev) allowedOrigins = Inr True \<and>
    (\<not> truthy (ev_data ev) \<or> getProp (ev_data ev) ''topic'' \<noteq> JStr CONNECT_HANDSHAKE) \<longrightarrow>
      onListenConnectionMessageReceived urlOrigin allowedOrigins promise ev s = (Returned, s)) \<and>
   (urlOrigin (ev_origin ev) = Some n \<and> (\<forall>a\<in>set allowedOrigins. urlOrigin a \<noteq> None) \<longrightarrow>
      isAllowedOrigin urlOrigin (ev_origin ev) allowedOrigins =
        Inr (\<exists>a\<in>set allowedOrigins. urlOrigin a = Some n))"
proof -
  have one: "(\<exists>a\<in>set allowedOrigins. \<exists>n. urlOrigin (ev_origin ev) = Some n \<and> urlOrigin a = Some n) \<and>
      getProp (ev_data ev) ''topic'' = JStr CONNECT_HANDSHAKE"
    if "snd (onListenConnectionMessageReceived urlOrigin allowedOrigins promise ev s) \<noteq> s"
  proof -
    from that have al: "isAllowedOrigin urlOrigin (ev_origin ev) allowedOrigins = Inr True"
      and tp: "getProp (ev_data ev) ''topic'' = JStr CONNECT_HANDSHAKE"
      by (auto simp add: onListenConnectionMessageReceived_def Let_def split: sum.splits if_splits)
    from isAllowedOrigin_True [OF al] tp show ?thesis by blast
  qed
  have two: "isAllowedOrigin urlOrigin (ev_origin ev) allowedOrigins = Inr False \<longrightarrow>
      onListenConnectionMessageReceived urlOrigin allowedOrigins promise ev s = (Returned, s)"
    by (simp add: onListenConnectionMessageReceived_def)
  have differs: "urlOrigin (ev_origin ev) = Some n \<and>
      (\<forall>a\<in>set allowedOrigins. \<exists>k. urlOrigin a = Some k \<and> k \<noteq> n) \<longrightarrow>
      onListenConnectionMessageReceived urlOrigin allowedOrigins promise ev s = (Returned, s)"
    by (auto simp add: onListenConnectionMessageReceived_def isAllowedOrigin_def
        allowedLoop_differs)
  have opaque: "urlOrigin (ev_origin ev) = None \<longrightarrow>
      onListenConnectionMessageReceived urlOrigin allowedOrigins promise ev s =
        (Threw TypeError, s)"
    by (simp add: onListenConnectionMessageReceived_def isAllowedOrigin_def)
  have entry: "urlOrigin (ev_origin ev) = Some n \<and> allowedOrigins = before @ entry # rest \<and>
      (\<forall>a\<in>set before. \<exists>k. urlOrigin a = Some k \<and> k \<noteq> n) \<and> urlOrigin entry = None \<longrightarrow>
      onListenConnectionMessageReceived urlOrigin allowedOrigins promise ev s =
        (Threw TypeError, s)"
    by (auto simp add: onListenConnectionMessageReceived_def isAllowedOrigin_def
        allowedLoop_unparsed)
  have three: "isAllowedOrigin urlOrigin (ev_origin ev) allowedOrigins = Inl e \<longrightarrow>
      onListenConnectionMessageReceived urlOrigin allowedOrigins promise ev s = (Threw e, s)"
    by (simp add: onListenConnectionMessageReceived_def)
  have four: "isAllowedOrigin urlOrigin (ev_origin ev) allowedOrigins = Inr True \<and>
    (\<not> truthy (ev_data ev) \<or> getProp (ev_data ev) ''topic'' \<noteq> JStr CONNECT_HANDSHAKE) \<longrightarrow>
      onListenConnectionMessageReceived urlOrigin allowedOrigins promise ev s = (Returned, s)"
    by (auto simp add: onListenConnectionMessageReceived_def)
  have five: "urlOrigin (ev_origin ev) = Some n \<and> (\<forall>a\<in>set allowedOrigins. urlOrigin a \<noteq> None) \<longrightarrow>
      isAllowedOrigin urlOrigin (ev_origin ev) allowedOrigins =
        Inr (\<exists>a\<in>set allowedOrigins. urlOrigin a = Some n)"
    by (auto simp add: isAllowedOrigin_def allowedLoop_parsed)
  from one differs opaque entry two three four five show ?thesis by blast
qed

theorem handshake_accepted_only_from_allowed_origin_witness:
  "onListenConnectionMessageReceived sampleOrigin [''https://a.example/''] 0
     (hello ''https://evil.example'') listening0 = (Returned, listening0) \<and>
   onListenConnectionMessageReceived sampleOrigin [''https://a.example/''] 0
     (hello ''null'') listening0 = (Threw TypeError, listening0) \<and>
   onListenConnectionMessageReceived sampleOrigin [''https://a.example/'', ''a.example'']
     0 (hello ''https://evil.example'') listening0 = (Threw TypeError, listening0) \<and>
   onListenConnectionMessageReceived sampleOrigin [''https://a.example/''] 0
     \<lparr>ev_data = JObj [(''topic'', JStr ''hello'')], ev_origin = ''HTTPS://A.EXAMPLE'', ev_ports = [7]\<rparr>
     listening0 = (Returned, listening0) \<and>
   messagePort (snd (onListenConnectionMessageReceived sampleOrigin [''https://a.example/''] 0
     (hello ''HTTPS://A.EXAMPLE'') listening0)) = Some 7 \<and>
   messagePort listening0 = None \<and>
   sampleOrigin ''HTTPS://A.EXAMPLE'' = sampleOrigin ''https://a.example/'' \<and>
   isAllowedOrigin sampleOrigin ''HTTPS://A.EXAMPLE'' [''https://a.example/''] = Inr True"
proof -
  have parsed: "sampleOrigin ''HTTPS://A.EXAMPLE'' = Some ''https://a.example''"
    "sampleOrigin ''https://a.example/'' = Some ''https://a.example''"
    "sampleOrigin ''https://evil.example'' = Some ''https://evil.example''"
    "sampleOrigin ''null'' = None" "sampleOrigin ''a.example'' = None"
    by (simp_all add: sampleOrigin_def)
  have org: "ev_origin (hello origin) = origin" for origin
    by (simp add: hello_def)
  have a: "onListenConnectionMessageReceived sampleOrigin [''https://a.example/''] 0
     (hello ''https://evil.example'') listening0 = (Returned, listening0)"
    using handshake_accepted_only_from_allowed_origin
        [where urlOrigin = sampleOrigin and allowedOrigins = "[''https://a.example/'']"
           and promise = 0 and ev = "hello ''https://evil.example''" and s = listening0
           and n = "''https://evil.example''", THEN conjunct2, THEN conjunct1]
    unfolding org by (simp add: parsed)
  have b: "onListenConnectionMessageReceived sampleOrigin [''https://a.example/''] 0
     (hello ''null'') listening0 = (Threw TypeError, listening0)"
    using handshake_accepted_only_from_allowed_origin
        [where urlOrigin = sampleOrigin and allowedOrigins = "[''https://a.example/'']"
           and promise = 0 and ev = "hello ''null''" and s = listening0,
         THEN conjunct2, THEN conjunct2, THEN conjunct1]
    unfolding org by (simp add: parsed)
  have b': "onListenConnectionMessageReceived sampleOrigin [''https://a.example/'', ''a.example'']
     0 (hello ''https://evil.example'') listening0 = (Threw TypeError, listening0)"
    using handshake_accepted_only_from_allowed_origin
        [where urlOrigin = sampleOrigin and allowedOrigins = "[''https://a.example/'', ''a.example'']"
           and promise = 0 and ev = "hello ''https://evil.example''" and s = listening0
           and n = "''https://evil.example''" and before = "[''https://a.example/'']"
           and entry = "''a.example''" and rest = "[]",
         THEN conjunct2, THEN conjunct2, THEN conjunct2, THEN conjunct1]
    unfolding org by (simp add: parsed)
  have c: "onListenConnectionMessageReceived sampleOrigin [''https://a.example/''] 0
     \<lparr>ev_data = JObj [(''topic'', JStr ''hello'')], ev_origin = ''HTTPS://A.EXAMPLE'', ev_ports = [7]\<rparr>
     listening0 = (Returned, listening0)"
    using handshake_accepted_only_from_allowed_origin
        [where urlOrigin = sampleOrigin and allowedOrigins = "[''https://a.example/'']"
           and promise = 0 and s = listening0 and ev = "\<lparr>ev_data = JObj [(''topic'', JStr ''hello'')],
             ev_origin = ''HTTPS://A.EXAMPLE'', ev_ports = [7]\<rparr>",
         THEN conjunct2, THEN conjunct2, THEN conjunct2, THEN conjunct2, THEN conjunct2,
         THEN conjunct2, THEN conjunct1]
      sample_allowed
    by (simp add: CONNECT_HANDSHAKE_def)
  have d: "messagePort (snd (onListenConnectionMessageReceived sampleOrigin [''https://a.example/''] 0
     (hello ''HTTPS://A.EXAMPLE'') listening0)) = Some 7"
    using sample_allowed
    by (simp add: onListenConnectionMessageReceived_def hello_def handshakeMessage_def Let_def)
  have e: "messagePort listening0 = None"
    by (simp add: listening0_def listen_def WindowMessenger_def Let_def)
  from d e have changed: "snd (onListenConnectionMessageReceived sampleOrigin [''https://a.example/''] 0
     (hello ''HTTPS://A.EXAMPLE'') listening0) \<noteq> listening0"
    by auto
  from handshake_accepted_only_from_allowed_origin
      [where urlOrigin = sampleOrigin and allowedOrigins = "[''https://a.example/'']"
         and promise = 0 and ev = "hello ''HTTPS://A.EXAMPLE''" and s = listening0,
       THEN conjunct1] changed
  have "\<exists>a\<in>set [''https://a.example/'']. \<exists>n.
      sampleOrigin (ev_origin (hello ''HTTPS://A.EXAMPLE'')) = Some n \<and> sampleOrigin a = Some n"
    by blast
  then have f: "sampleOrigin ''HTTPS://A.EXAMPLE'' = sampleOrigin ''https://a.example/''"
    unfolding org by auto
  from handshake_accepted_only_from_allowed_origin
      [where urlOrigin = sampleOrigin and allowedOrigins = "[''https://a.example/'']"
         and promise = 0 and ev = "hello ''HTTPS://A.EXAMPLE''" and s = listening0
         and n = "''https://a.example''",
       THEN conjunct2, THEN conjunct2, THEN conjunct2, THEN conjunct2, THEN conjunct2,
       THEN conjunct2, THEN conjunct2]
  have g: "isAllowedOrigin sampleOrigin ''HTTPS://A.EXAMPLE'' [''https://a.example/''] = Inr True"
    unfolding org by (simp add: parsed)
  from a b b' c d e f g show ?thesis by blast
qed

lemma waiting_sameConnection: "waiting s \<Longrightarrow> sameConnection s s' \<Longrightarrow> waiting s'"
  by (auto simp add: waiting_def sameConnection_def)

lemma waiting_new: "waiting (WindowMessenger options)"
  by (simp add: waiting_def WindowMessenger_def)

lemma on_sameConnection: "sameConnection s (on topic cb s)"
  using run_action_sameConnection [of s "[]" "[]" "CallOn topic cb"] by simp

lemma off_sameConnection: "sameConnection s (snd (off topic cb s))"
  using run_action_sameConnection [of s "[]" "[]" "CallOff topic cb"] by simp

lemma waiting_listen: "waiting s \<Longrightarrow> waiting (listen allowedOrigins True s)"
  by (auto simp add: waiting_def listen_def reject_def Let_def split: option.splits)

lemma waiting_onListen:
  "waiting s \<Longrightarrow>
   waiting (snd (onListenConnectionMessageReceived urlOrigin allowedOrigins promise ev s))"
  by (auto simp add: waiting_def onListenConnectionMessageReceived_def Let_def addReceiver_def
      split: sum.splits list.splits)

lemma waiting_deliverWindow:
  "waiting s \<Longrightarrow> waiting (deliverWindow urlOrigin rnds fs ev s)"
proof (induction fs arbitrary: s)
  case Nil
  then show ?case by simp
next
  case (Cons f fs)
  show ?case
  proof (cases f)
    case (ListenProc n allowedOrigins promise)
    let ?s1 = "snd (onListenConnectionMessageReceived urlOrigin allowedOrigins promise ev s)"
    have w1: "waiting ?s1" using Cons.prems by (rule waiting_onListen)
    have nd: "thenDelay ?s1 promise \<noteq> Some False"
      using w1 by (simp add: waiting_def)
    have "(case thenDelay ?s1 promise of
             Some delayConnectHandshake \<Rightarrow> snd (listenThen delayConnectHandshake (rnds promise) ?s1)
           | None \<Rightarrow> ?s1) = ?s1"
      using nd by (cases "thenDelay ?s1 promise") (auto simp add: listenThen_def)
    then show ?thesis
      using ListenProc Cons.IH [OF w1] Cons.IH [OF Cons.prems] by (simp add: Let_def)
  next
    case (ConnectProc n port origin promise)
    with Cons show ?thesis by simp
  next
    case (ChannelProc n)
    with Cons show ?thesis by simp
  qed
qed

lemma waiting_onChannel:
  "waiting s \<Longrightarrow> waiting (snd (onChannelMessageReceived beh fuel m s))"
proof -
  assume w: "waiting s"
  have "sameConnection s (snd (deliver beh fuel m s))"
    by (rule deliver_sameConnection)
  with w have "waiting (snd (deliver beh fuel m s))"
    by (rule waiting_sameConnection)
  with w show ?thesis
    by (auto simp add: onChannelMessageReceived_def waiting_def split: option.splits)
qed

lemma waiting_deliverPort:
  "waiting s \<Longrightarrow> waiting (deliverPort beh fuel fs port m s)"
proof (induction fs arbitrary: s)
  case Nil
  then show ?case by simp
next
  case (Cons pf fs)
  obtain p f where pf: "pf = (p, f)" by (cases pf)
  show ?case
  proof (cases "p = port \<and> (p, f) \<in> set (portReceivers s)")
    case False
    with pf Cons show ?thesis by auto
  next
    case True
    then have "isChannel f"
      using Cons.prems by (auto simp add: waiting_def list_all_iff)
    then obtain n where f: "f = ChannelProc n" by (cases f) simp_all
    have "waiting (snd (onChannelMessageReceived beh fuel m s))"
      using Cons.prems by (rule waiting_onChannel)
    from Cons.IH [OF this] show ?thesis
      using pf f True by auto
  qed
qed

lemma waiting_step:
  "waiting s \<Longrightarrow> delayedOnly e \<Longrightarrow> waiting (step beh urlOrigin rnds fuel e s)"
proof (cases e)
  case (WindowMessage ev)
  assume "waiting s"
  then show ?thesis using WindowMessage by (simp add: windowMessage_def waiting_deliverWindow)
next
  case (PortMessage port m)
  assume "waiting s"
  then show ?thesis using PortMessage by (simp add: portMessage_def waiting_deliverPort)
next
  case (On topic cb)
  assume "waiting s"
  then show ?thesis using On on_sameConnection [of s topic cb]
    by (auto intro: waiting_sameConnection)
next
  case (Off topic cb)
  assume "waiting s"
  then show ?thesis using Off off_sameConnection [of s topic cb]
    by (auto intro: waiting_sameConnection)
next
  case (Listen allowedOrigins delayConnectHandshake)
  assume "waiting s" "delayedOnly e"
  then show ?thesis using Listen by (simp add: waiting_listen)
qed

lemma waiting_runEvents:
  "waiting s \<Longrightarrow> list_all delayedOnly evs \<Longrightarrow> waiting (runEvents beh urlOrigin rnds fuel evs s)"
  by (induction evs arbitrary: s) (simp_all add: waiting_step)

lemma no_acknowledgment_among_replies:
  "list_all (\<lambda>x. isReply (snd x)) posts \<Longrightarrow>
   \<forall>port bytes. (port, acknowledgment bytes) \<notin> set posts"
  by (auto simp add: list_all_iff acknowledgment_def)

lemma finish_with_port:
  "messagePort s = Some p \<Longrightarrow>
   fst (finishListenHandshake rnd s) = Returned \<and>
   connected (snd (finishListenHandshake rnd s)) \<and>
   portPosts (snd (finishListenHandshake rnd s)) = portPosts s @ [(p, acknowledgment rnd)]"
  by (simp add: finishListenHandshake_def send_with_port register_def acknowledgment_def)

lemma accepted0_port: "messagePort accepted0 = Some 7" "portPosts accepted0 = []"
  by (simp_all add: accepted0_def listen_def WindowMessenger_def windowMessage_def Let_def
      addReceiver_def removeReceiver_def onListenConnectionMessageReceived_def sample_allowed
      hello_def handshakeMessage_def settled_def listenThen_def)

text \<open>
  C2. Start a listener with \<^verbatim>\<open>listen(allowedOrigins, true)\<close> and let anything
  happen to it but a call of \<^verbatim>\<open>finishListenHandshake\<close>, \<^verbatim>\<open>send\<close> or
  \<^verbatim>\<open>connect\<close>: broadcasts on the window (accepted or not), messages on its ports,
  subscribers that answer, subscribe, unsubscribe or throw, further delayed listens.
  It is never connected, and all it has posted are replies, so never the acknowledgment
  (which is not a reply). Once
  a broadcast was accepted (the port is set), \<^verbatim>\<open>finishListenHandshake\<close> returns,
  posts the acknowledgment on that port and sets \<^verbatim>\<open>connected_\<close>.
\<close>

theorem delayed_handshake_waits_for_finish:
  assumes "list_all delayedOnly evs"
  shows "\<not> connected (runEvents beh urlOrigin rnds fuel evs
              (listen (Some allowedOrigins) True (WindowMessenger options))) \<and>
         list_all (\<lambda>x. isReply (snd x))
           (portPosts (runEvents beh urlOrigin rnds fuel evs
              (listen (Some allowedOrigins) True (WindowMessenger options)))) \<and>
         (\<forall>port bytes. (port, acknowledgment bytes) \<notin>
            set (portPosts (runEvents beh urlOrigin rnds fuel evs
              (listen (Some allowedOrigins) True (WindowMessenger options))))) \<and>
         (messagePort (runEvents beh urlOrigin rnds fuel evs
              (listen (Some allowedOrigins) True (WindowMessenger options))) = Some p \<longrightarrow>
            fst (finishListenHandshake rnd (runEvents beh urlOrigin rnds fuel evs
              (listen (Some allowedOrigins) True (WindowMessenger options)))) = Returned \<and>
            connected (snd (finishListenHandshake rnd (runEvents beh urlOrigin rnds fuel evs
              (listen (Some allowedOrigins) True (WindowMessenger options))))) \<and>
            portPosts (snd (finishListenHandshake rnd (runEvents beh urlOrigin rnds fuel evs
              (listen (Some allowedOrigins) True (WindowMessenger options))))) =
              portPosts (runEvents beh urlOrigin rnds fuel evs
                (listen (Some allowedOrigins) True (WindowMessenger options))) @
                [(p, acknowledgment rnd)])"
proof -
  let ?s = "runEvents beh urlOrigin rnds fuel evs
              (listen (Some allowedOrigins) True (WindowMessenger options))"
  have "waiting (listen (Some allowedOrigins) True (WindowMessenger options))"
    using waiting_new by (rule waiting_listen)
  then have "waiting ?s"
    using assms by (rule waiting_runEvents)
  then have nc: "\<not> connected ?s" and rp: "list_all (\<lambda>x. isReply (snd x)) (portPosts ?s)"
    by (simp_all add: waiting_def)
  from rp have na: "\<forall>port bytes. (port, acknowledgment bytes) \<notin> set (portPosts ?s)"
    by (rule no_acknowledgment_among_replies)
  from nc rp na show ?thesis
    using finish_with_port [of ?s p rnd] by blast
qed

theorem delayed_handshake_waits_for_finish_witness:
  "\<not> connected accepted0 \<and> portPosts accepted0 = [] \<and>
   connected (snd (finishListenHandshake [1, 2, 3] accepted0)) \<and>
   portPosts (snd (finishListenHandshake [1, 2, 3] accepted0)) = [(7, acknowledgment [1, 2, 3])]"
  using delayed_handshake_waits_for_finish [of "[WindowMessage (hello ''https://evil.example''), WindowMessage (hello ''HTTPS://A.EXAMPLE'')]"
        "\<lambda>cb d. []" sampleOrigin "\<lambda>promise. []" 0 "[''https://a.example/'']" None 7 "[1, 2, 3]"]
    accepted0_port
  by (simp add: accepted0_def [symmetric] del: runEvents.simps)

section \<open>The prober and the deferred handshake\<close>

text \<open>
  C3. The module's \<^verbatim>\<open>run\<close> calls \<^verbatim>\<open>finishListenHandshake\<close> as soon as the
  checker's \<^verbatim>\<open>run\<close> completes, whether or not the parent's broadcast has been
  accepted by then. With an empty list of targets the checker completes at once, before
  any message can come in: \<^verbatim>\<open>messagePort_\<close> is still null, \<^verbatim>\<open>send\<close> throws a
  TypeError on it, no acknowledgment is posted and \<^verbatim>\<open>connected_\<close> stays false.
  The parent's broadcast that comes in afterwards is accepted, and the handshake, delayed,
  is left unfinished for good. The comment above the call says that the handshake is
  resumed at that point.
\<close>

theorem finishListenHandshake_before_broadcast_throws:
  "run sampleOrigin (\<lambda>url. True) [] = Completed \<and>
   fst (runAmpWebPushHelperFrame (\<lambda>cb d. []) sampleOrigin (\<lambda>url. True) (\<lambda>promise. []) 0
          (Some ''https://a.example/'') [] [] [1, 2, 3]) = Threw TypeError \<and>
   messagePort stranded = None \<and> \<not> connected stranded \<and> portPosts stranded = [] \<and>
   messagePort (windowMessage sampleOrigin (\<lambda>promise. []) (hello ''HTTPS://A.EXAMPLE'') stranded) =
     Some 7 \<and>
   \<not> connected (windowMessage sampleOrigin (\<lambda>promise. []) (hello ''HTTPS://A.EXAMPLE'') stranded) \<and>
   portPosts (windowMessage sampleOrigin (\<lambda>promise. []) (hello ''HTTPS://A.EXAMPLE'') stranded) = []"
  by code_simp

section \<open>Re-entering listen and connect\<close>

text \<open>
  C4. The source tests \<^verbatim>\<open>listening_\<close> and \<^verbatim>\<open>connecting_\<close> and never
  assigns them. A second \<^verbatim>\<open>listen\<close> on a new messenger, while the first is in
  flight, is not rejected and registers a second receiver on the window; a second
  \<^verbatim>\<open>connect\<close> is not rejected either, opens a second channel, moves the
  messenger to its port and posts a second handshake.
\<close>

theorem second_listen_and_connect_are_not_rejected:
  "windowReceivers (listen (Some [''https://a.example'']) False
       (listen (Some [''https://a.example'']) False (WindowMessenger None))) =
     [ListenProc 1 [''https://a.example''] 0, ListenProc 3 [''https://a.example''] 2] \<and>
   rejectCalls (listen (Some [''https://a.example'']) False
       (listen (Some [''https://a.example'']) False (WindowMessenger None))) = [] \<and>
   listening (listen (Some [''https://a.example'']) False (WindowMessenger None)) = False \<and>
   portReceivers (connect sampleOrigin (Some 5) (Some ''https://a.example'')
       (connect sampleOrigin (Some 5) (Some ''https://a.example'') (WindowMessenger None))) =
     [(1, ConnectProc 3 1 (Some ''https://a.example'') 0),
      (5, ConnectProc 7 5 (Some ''https://a.example'') 4)] \<and>
   rejectCalls (connect sampleOrigin (Some 5) (Some ''https://a.example'')
       (connect sampleOrigin (Some 5) (Some ''https://a.example'') (WindowMessenger None))) = [] \<and>
   length (windowPosts (connect sampleOrigin (Some 5) (Some ''https://a.example'')
       (connect sampleOrigin (Some 5) (Some ''https://a.example'') (WindowMessenger None)))) = 2 \<and>
   messagePort (connect sampleOrigin (Some 5) (Some ''https://a.example'')
       (connect sampleOrigin (Some 5) (Some ''https://a.example'') (WindowMessenger None))) = Some 5 \<and>
   connecting (connect sampleOrigin (Some 5) (Some ''https://a.example'') (WindowMessenger None)) = False"
  by (simp add: listen_def connect_def WindowMessenger_def Let_def addReceiver_def reject_def
      targetOrigin_def sampleOrigin_def)

text \<open>
  C5. \<^verbatim>\<open>connect\<close> without a window rejects and, having no
  \<^verbatim>\<open>return\<close> after the rejection, goes on: it creates the channel, sets the
  port, registers and starts the receiver, and only then throws at
  \<^verbatim>\<open>postMessage\<close>. Without an expected origin it does the same and throws at
  \<^verbatim>\<open>new URL\<close>. In both cases nothing is posted to the remote window.
\<close>

theorem connect_with_missing_argument_opens_channel:
  "rejectCalls (connect sampleOrigin None (Some ''https://a.example'') (WindowMessenger None)) =
     [(0, Err ''Provide a valid Window context to connect to.''), (0, Exn TypeError)] \<and>
   channel (connect sampleOrigin None (Some ''https://a.example'') (WindowMessenger None)) = Some (1, 2) \<and>
   messagePort (connect sampleOrigin None (Some ''https://a.example'') (WindowMessenger None)) = Some 1 \<and>
   portReceivers (connect sampleOrigin None (Some ''https://a.example'') (WindowMessenger None)) =
     [(1, ConnectProc 3 1 (Some ''https://a.example'') 0)] \<and>
   startedPorts (connect sampleOrigin None (Some ''https://a.example'') (WindowMessenger None)) = [1] \<and>
   windowPosts (connect sampleOrigin None (Some ''https://a.example'') (WindowMessenger None)) = [] \<and>
   rejectCalls (connect sampleOrigin (Some 5) None (WindowMessenger None)) =
     [(0, Err ''Provide an expected origin for the remote Window or provide the wildcard *.''),
      (0, Exn TypeError)] \<and>
   channel (connect sampleOrigin (Some 5) None (WindowMessenger None)) = Some (1, 2) \<and>
   windowPosts (connect sampleOrigin (Some 5) None (WindowMessenger None)) = []"
  by (simp add: connect_def WindowMessenger_def Let_def addReceiver_def reject_def
      targetOrigin_def sampleOrigin_def)

end
